theory Spec2Isabelle
  imports Main "HOL-Library.Sublist" "HOL-Library.AList"
begin

section \<open>JavaScript string primitives used by FileSystemService.ts\<close>

text \<open>
  Strings are \<^typ>\<open>string\<close> (lists of 8-bit characters, read as the UTF-8 bytes of the
  JavaScript string). All separators the service looks for (\<open>/\<close>, \<open>:\<close>, \<open>.md\<close>,
  \<open>content://\<close>) are ASCII, so splitting and prefix tests agree with the UTF-16 view.
\<close>

text \<open>\<open>s.startsWith(p)\<close> and \<open>s.endsWith(p)\<close>.\<close>

definition startsWith :: "string \<Rightarrow> string \<Rightarrow> bool" where
  "startsWith s p = prefix p s"

definition endsWith :: "string \<Rightarrow> string \<Rightarrow> bool" where
  "endsWith s p = suffix p s"

text \<open>\<open>s.includes(t)\<close> (\<open>includes\<close> is an Isabelle keyword): \<open>t\<close> occurs as a contiguous substring of \<open>s\<close>.\<close>

fun str_includes :: "string \<Rightarrow> string \<Rightarrow> bool" where
  "str_includes [] t = (t = [])"
| "str_includes (x # xs) t = (prefix t (x # xs) \<or> str_includes xs t)"

text \<open>\<open>s.split(c)\<close> for a one-character separator: never returns the empty array.\<close>

fun split_on :: "char \<Rightarrow> string \<Rightarrow> string list" where
  "split_on c [] = [[]]"
| "split_on c (x # xs) =
     (if x = c then [] # split_on c xs
      else (case split_on c xs of
              [] \<Rightarrow> [[x]]
            | p # ps \<Rightarrow> (x # p) # ps))"

text \<open>\<open>parts.join(sep)\<close>.\<close>

fun join_with :: "string \<Rightarrow> string list \<Rightarrow> string" where
  "join_with sep [] = []"
| "join_with sep [p] = p"
| "join_with sep (p # q # ps) = p @ sep @ join_with sep (q # ps)"

section \<open>Path translator: getParentPath\<close>

text \<open>
  \<open>getParentPath(currentPath, rootPath)\<close>; \<open>None\<close> is JavaScript's \<open>null\<close>.
  \<open>pathParts.slice(0, -1)\<close> is \<^const>\<open>butlast\<close>.
\<close>

definition getParentPath :: "string \<Rightarrow> string \<Rightarrow> string option" where
  "getParentPath currentPath rootPath =
     (if currentPath = rootPath then None
      else if startsWith currentPath ''content://'' then
        (let pathParts = split_on CHR ''/'' currentPath in
         if length pathParts > 4 then Some (join_with ''/'' (butlast pathParts))
         else Some rootPath)
      else
        (let pathParts = split_on CHR ''/'' currentPath in
         if length pathParts > 1 then
           (let parentPath = join_with ''/'' (butlast pathParts) @ ''/'' in
            if length parentPath \<ge> length rootPath then Some parentPath else None)
         else None))"

section \<open>Path translator: parseSafUriToReadablePath\<close>

text \<open>
  \<open>s.toLowerCase()\<close> on the ASCII letters. The only use is the test for the substrings
  \<open>sd\<close> and \<open>external\<close>; no non-ASCII character lower-cases to one of their letters.
\<close>

definition lower_char :: "char \<Rightarrow> char" where
  "lower_char c =
     (let n = (of_char c :: nat) in
      if 65 \<le> n \<and> n \<le> 90 then char_of (n + 32) else c)"

definition toLowerCase :: "string \<Rightarrow> string" where
  "toLowerCase s = map lower_char s"

text \<open>
  The characters the regular-expression dot does not match: LF, CR, and U+2028 and
  U+2029 (the bytes E2 80 A8 and E2 80 A9).
\<close>

fun has_line_terminator :: "string \<Rightarrow> bool" where
  "has_line_terminator [] = False"
| "has_line_terminator (x # xs) =
     (x = CHR 0x0A \<or> x = CHR 0x0D
      \<or> prefix [CHR 0xE2, CHR 0x80, CHR 0xA8] (x # xs)
      \<or> prefix [CHR 0xE2, CHR 0x80, CHR 0xA9] (x # xs)
      \<or> has_line_terminator xs)"

text \<open>
  \<open>safUri.match(/\/tree\/(.+)$/)\<close>: the leftmost position where \<open>/tree/\<close> is followed
  by a non-empty rest of the input without line terminators; the result is capture
  group 1, \<open>None\<close> when there is no match.
\<close>

fun treeMatch :: "string \<Rightarrow> string option" where
  "treeMatch [] = None"
| "treeMatch (x # xs) =
     (let rest = drop 6 (x # xs) in
      if prefix ''/tree/'' (x # xs) \<and> rest \<noteq> [] \<and> \<not> has_line_terminator rest
      then Some rest
      else treeMatch xs)"

text \<open>\<open>a || b\<close> on strings: the empty string is falsy.\<close>

definition or_else :: "string \<Rightarrow> string \<Rightarrow> string" where
  "or_else a b = (if a \<noteq> [] then a else b)"

text \<open>
  \<open>parseSafUriToReadablePath(safUri)\<close>. The built-in \<open>decodeURIComponent\<close> is the
  parameter \<open>dec\<close>; \<open>None\<close> is its \<open>URIError\<close>, which the \<open>catch\<close> turns into the generic
  label. \<open>pathPart.substring('primary:'.length)\<close> is \<open>drop 8\<close>, \<open>parts.slice(1)\<close> is
  \<^const>\<open>tl\<close>.
\<close>

definition parseSafUriToReadablePath :: "(string \<Rightarrow> string option) \<Rightarrow> string \<Rightarrow> string" where
  "parseSafUriToReadablePath dec safUri =
     (if \<not> startsWith safUri ''content://'' then safUri
      else case treeMatch safUri of
        None \<Rightarrow> ''Custom Folder''
      | Some raw \<Rightarrow>
         (case dec raw of
            None \<Rightarrow> ''Custom Folder''
          | Some pathPart \<Rightarrow>
             (let parts = split_on CHR '':'' pathPart;
                  storageName = hd parts;
                  relativePath = join_with '':'' (tl parts)
              in
              if startsWith pathPart ''primary:'' then
                or_else (drop 8 pathPart) ''Internal Storage''
              else if str_includes pathPart '':'' \<and> length parts \<ge> 2 then
                (if str_includes (toLowerCase storageName) ''sd''
                    \<or> str_includes (toLowerCase storageName) ''external''
                 then (if relativePath \<noteq> [] then ''SD Card/'' @ relativePath else ''SD Card'')
                 else if storageName = ''primary''
                 then or_else relativePath ''Internal Storage''
                 else (if relativePath \<noteq> [] then storageName @ ''/'' @ relativePath
                       else storageName))
              else or_else pathPart ''Custom Folder'')))"

text \<open>
  A percent-decoder over bytes: \<open>%XX\<close> with two hexadecimal digits becomes the byte,
  any other \<open>%\<close> is an error. It is one decoder the results below can be instantiated
  with.
\<close>

definition hex_digit :: "char \<Rightarrow> nat option" where
  "hex_digit c =
     (let n = (of_char c :: nat) in
      if 48 \<le> n \<and> n \<le> 57 then Some (n - 48)
      else if 65 \<le> n \<and> n \<le> 70 then Some (n - 55)
      else if 97 \<le> n \<and> n \<le> 102 then Some (n - 87)
      else None)"

fun percentDecode :: "string \<Rightarrow> string option" where
  "percentDecode [] = Some []"
| "percentDecode (c # cs) =
     (if c = CHR ''%'' then
        (case cs of
           h # l # rest \<Rightarrow>
             (case (hex_digit h, hex_digit l, percentDecode rest) of
                (Some a, Some b, Some r) \<Rightarrow> Some (char_of (16 * a + b) # r)
              | _ \<Rightarrow> None)
         | _ \<Rightarrow> None)
      else (case percentDecode cs of Some r \<Rightarrow> Some (c # r) | None \<Rightarrow> None))"

section \<open>Preference store: asyncStorageWithTimeout\<close>

text \<open>
  An underlying \<open>AsyncStorage\<close> call is a promise: it settles after some number of
  milliseconds, resolved (\<open>Inr\<close>) or rejected by the backend (\<open>Inl\<close>), or it never
  settles.
\<close>

datatype ('e, 'a) pending = Settles nat "'e + 'a" | Never

text \<open>
  The error a wrapped call fails with: the wrapper's own
  \<open>new Error(`AsyncStorage.getItem timeout for key: ${key}`)\<close>, carrying its message,
  or the backend's rejection passed through by \<open>Promise.race\<close>.
\<close>

datatype 'e storage_error = Timeout string | Backend 'e

text \<open>
  \<open>Promise.race([operation, timer])\<close> where the timer rejects after \<open>timeoutMs\<close>: the
  result is the pair of the time at which the race settles and its outcome. The
  operation is started before the timer is armed, so it wins when it settles no later
  than \<open>timeoutMs\<close> after the call; the timer wins only when the operation is still
  pending then.
\<close>

definition race_timeout ::
  "string \<Rightarrow> ('e, 'a) pending \<Rightarrow> nat \<Rightarrow> nat \<times> ('e storage_error + 'a)" where
  "race_timeout message operation timeoutMs =
     (case operation of
        Never \<Rightarrow> (timeoutMs, Inl (Timeout message))
      | Settles t r \<Rightarrow>
          if t \<le> timeoutMs then
            (t, case r of Inl e \<Rightarrow> Inl (Backend e) | Inr v \<Rightarrow> Inr v)
          else (timeoutMs, Inl (Timeout message)))"

text \<open>The default parameter \<open>timeoutMs: number = 5000\<close>.\<close>

definition timeout_window :: "nat option \<Rightarrow> nat" where
  "timeout_window timeoutMs = (case timeoutMs of None \<Rightarrow> 5000 | Some t \<Rightarrow> t)"

text \<open>
  The three wrapped calls. The last argument is the behaviour of the underlying
  \<open>AsyncStorage\<close> call.
\<close>

definition getItem ::
  "string \<Rightarrow> nat option \<Rightarrow> ('e, string option) pending
   \<Rightarrow> nat \<times> ('e storage_error + string option)" where
  "getItem key timeoutMs operation =
     race_timeout (''AsyncStorage.getItem timeout for key: '' @ key) operation
       (timeout_window timeoutMs)"

definition setItem ::
  "string \<Rightarrow> string \<Rightarrow> nat option \<Rightarrow> ('e, unit) pending
   \<Rightarrow> nat \<times> ('e storage_error + unit)" where
  "setItem key val timeoutMs operation =
     race_timeout (''AsyncStorage.setItem timeout for key: '' @ key) operation
       (timeout_window timeoutMs)"

definition removeItem ::
  "string \<Rightarrow> nat option \<Rightarrow> ('e, unit) pending
   \<Rightarrow> nat \<times> ('e storage_error + unit)" where
  "removeItem key timeoutMs operation =
     race_timeout (''AsyncStorage.removeItem timeout for key: '' @ key) operation
       (timeout_window timeoutMs)"

section \<open>User preferences\<close>

record UserPreferences =
  showTimestamps :: bool
  welcomeCompleted :: bool

definition DEFAULT_PREFERENCES :: UserPreferences where
  "DEFAULT_PREFERENCES = \<lparr>showTimestamps = True, welcomeCompleted = False\<rparr>"

text \<open>
  \<open>Partial<UserPreferences>\<close>, and the view of a parsed JSON payload through the two
  fields: a field is present with a value, or absent.
\<close>

record PartialPreferences =
  showTimestamps_opt :: "bool option"
  welcomeCompleted_opt :: "bool option"

text \<open>The object spread \<open>{ ...base, ...over }\<close>.\<close>

definition spread :: "UserPreferences \<Rightarrow> PartialPreferences \<Rightarrow> UserPreferences" where
  "spread base over =
     \<lparr>showTimestamps =
        (case showTimestamps_opt over of None \<Rightarrow> showTimestamps base | Some b \<Rightarrow> b),
      welcomeCompleted =
        (case welcomeCompleted_opt over of None \<Rightarrow> welcomeCompleted base | Some b \<Rightarrow> b)\<rparr>"

section \<open>Data model\<close>

text \<open>Timestamps are milliseconds, what \<open>Date.getTime()\<close> and \<open>Date.now()\<close> return.\<close>

type_synonym time = int

text \<open>
  Modelled from the spec: the declarations of \<open>Note\<close> and \<open>NotePreview\<close> (\<open>@/types/Note\<close>)
  and of \<open>FolderItem\<close>, \<open>NoteItem\<close> and \<open>DirectoryContents\<close> (\<open>@/types/FileSystemItem\<close>)
  are not among the sources. The fields are the ones the spec lists, which are also the
  ones the object literals of the service fill in. A \<open>NoteItem\<close> is a \<open>NotePreview\<close>
  with the constant tag \<open>type: 'note'\<close>, so one record stands for both.
\<close>

record Note =
  filename :: string
  content :: string
  createdAt :: time
  updatedAt :: time
  filePath :: string

record NotePreview =
  preview_filename :: string
  preview :: string
  preview_createdAt :: time
  preview_updatedAt :: time
  preview_filePath :: string

record FolderItem =
  name :: string
  path :: string
  folder_createdAt :: time
  folder_updatedAt :: time

text \<open>The field \<open>notes\<close> is \<open>note_items\<close> here (\<open>notes\<close> is an Isabelle keyword).\<close>

record DirectoryContents =
  folders :: "FolderItem list"
  note_items :: "NotePreview list"
  currentPath :: string
  parentPath :: "string option"

section \<open>The storage backends\<close>

text \<open>
  The file tree behind \<open>expo-file-system\<close> and \<open>react-native-saf-x\<close>: an association list
  from locators (paths or content URIs, without trailing separator) to files, with
  content and modification time, and directories. \<open>faults\<close> lists the primitive calls
  that the backend rejects (permission revoked, I/O error). \<open>now\<close> is the clock.
\<close>

datatype node = File string time | Dir time

datatype primitive = Read | Write | Delete | Stat | ListDir | MakeDir

datatype io_error = NotFound string | BackendFailure primitive string

text \<open>
  One entry of the array that the browser keeps under the \<open>localStorage\<close> key \<open>notes\<close>,
  as \<open>JSON.parse\<close> returns it: the entries are untyped, so a field the service reads
  but never writes (\<open>id\<close>, \<open>preview\<close>) may be absent.
\<close>

record web_note =
  web_id :: "string option"
  web_filename :: string
  web_content :: string
  web_preview :: "string option"
  web_createdAt :: time
  web_updatedAt :: time
  web_filePath :: string

text \<open>
  \<open>localStorage.getItem('notes')\<close> seen through \<open>JSON.parse\<close>: no item (or the empty
  string, which is falsy too), text that \<open>JSON.parse\<close> rejects, or an array of entries.
  \<open>JSON.stringify\<close> followed by \<open>JSON.parse\<close> gives the array back.
\<close>

datatype web_store = NoItem | Unparsable | Parsed "web_note list"

record world =
  entries :: "(string \<times> node) list"
  faults :: "(primitive \<times> string) list"
  now :: time
  localStorage_notes :: web_store

definition norm_path :: "string \<Rightarrow> string" where
  "norm_path p = rev (dropWhile (\<lambda>c. c = CHR ''/'') (rev p))"

definition lookup :: "world \<Rightarrow> string \<Rightarrow> node option" where
  "lookup w p = map_of (entries w) (norm_path p)"

definition faulty :: "world \<Rightarrow> primitive \<Rightarrow> string \<Rightarrow> bool" where
  "faulty w prim p = ((prim, p) \<in> set (faults w))"

text \<open>The names directly below directory \<open>d\<close>, with their nodes.\<close>

definition child_name :: "string \<Rightarrow> string \<Rightarrow> string option" where
  "child_name d k =
     (let rest = drop (length d + 1) k in
      if prefix (d @ ''/'') k \<and> rest \<noteq> [] \<and> CHR ''/'' \<notin> set rest
      then Some rest else None)"

definition children :: "world \<Rightarrow> string \<Rightarrow> (string \<times> node) list" where
  "children w d =
     List.map_filter
       (\<lambda>(k, n). case child_name (norm_path d) k of
                    None \<Rightarrow> None
                  | Some nm \<Rightarrow> Some (nm, n))
       (entries w)"

subsection \<open>expo-file-system\<close>

text \<open>\<open>FileSystem.getInfoAsync(path)\<close>: \<open>None\<close> is \<open>{ exists: false }\<close>.\<close>

definition getInfoAsync :: "world \<Rightarrow> string \<Rightarrow> io_error + node option" where
  "getInfoAsync w p =
     (if faulty w Stat p then Inl (BackendFailure Stat p) else Inr (lookup w p))"

text \<open>\<open>FileSystem.makeDirectoryAsync(dir, { intermediates: true })\<close>.\<close>

definition makeDirectoryAsync :: "world \<Rightarrow> string \<Rightarrow> io_error + world" where
  "makeDirectoryAsync w p =
     (if faulty w MakeDir p then Inl (BackendFailure MakeDir p)
      else Inr (w\<lparr>entries := AList.update (norm_path p) (Dir (now w)) (entries w)\<rparr>))"

definition readDirectoryAsync :: "world \<Rightarrow> string \<Rightarrow> io_error + string list" where
  "readDirectoryAsync w d =
     (if faulty w ListDir d then Inl (BackendFailure ListDir d)
      else case lookup w d of
        Some (Dir t) \<Rightarrow> Inr (map fst (children w d))
      | _ \<Rightarrow> Inl (NotFound d))"

definition readAsStringAsync :: "world \<Rightarrow> string \<Rightarrow> io_error + string" where
  "readAsStringAsync w p =
     (if faulty w Read p then Inl (BackendFailure Read p)
      else case lookup w p of
        Some (File c t) \<Rightarrow> Inr c
      | _ \<Rightarrow> Inl (NotFound p))"

definition writeAsStringAsync :: "world \<Rightarrow> string \<Rightarrow> string \<Rightarrow> io_error + world" where
  "writeAsStringAsync w p c =
     (if faulty w Write p then Inl (BackendFailure Write p)
      else case lookup w p of
        Some (Dir t) \<Rightarrow> Inl (BackendFailure Write p)
      | _ \<Rightarrow> Inr (w\<lparr>entries := AList.update (norm_path p) (File c (now w)) (entries w)\<rparr>))"

text \<open>
  \<open>FileSystem.deleteAsync(path)\<close> without \<open>idempotent\<close>: fails when nothing is there;
  a directory goes with everything below it.
\<close>

definition deleteAsync :: "world \<Rightarrow> string \<Rightarrow> io_error + world" where
  "deleteAsync w p =
     (if faulty w Delete p then Inl (BackendFailure Delete p)
      else case lookup w p of
        None \<Rightarrow> Inl (NotFound p)
      | Some n \<Rightarrow>
          Inr (w\<lparr>entries :=
                 filter (\<lambda>(k, n). k \<noteq> norm_path p \<and> \<not> prefix (norm_path p @ ''/'') k)
                   (entries w)\<rparr>))"

subsection \<open>react-native-saf-x\<close>

datatype saf_type = SafFile | SafDirectory

record saf_file =
  saf_name :: string
  saf_type :: saf_type
  saf_uri :: string
  saf_lastModified :: time

definition readFile :: "world \<Rightarrow> string \<Rightarrow> io_error + string" where
  "readFile w uri = readAsStringAsync w uri"

definition writeFile :: "world \<Rightarrow> string \<Rightarrow> string \<Rightarrow> io_error + world" where
  "writeFile w uri c = writeAsStringAsync w uri c"

definition unlink :: "world \<Rightarrow> string \<Rightarrow> io_error + world" where
  "unlink w uri = deleteAsync w uri"

text \<open>\<open>stat(uri)\<close> fails when nothing is there; the result is \<open>lastModified\<close>.\<close>

definition stat :: "world \<Rightarrow> string \<Rightarrow> io_error + time" where
  "stat w uri =
     (if faulty w Stat uri then Inl (BackendFailure Stat uri)
      else case lookup w uri of
        None \<Rightarrow> Inl (NotFound uri)
      | Some (File c t) \<Rightarrow> Inr t
      | Some (Dir t) \<Rightarrow> Inr t)"

definition listFiles :: "world \<Rightarrow> string \<Rightarrow> io_error + saf_file list" where
  "listFiles w d =
     (if faulty w ListDir d then Inl (BackendFailure ListDir d)
      else case lookup w d of
        Some (Dir t) \<Rightarrow>
          Inr (map (\<lambda>(nm, n).
                 \<lparr>saf_name = nm,
                  saf_type = (case n of File c t \<Rightarrow> SafFile | Dir t \<Rightarrow> SafDirectory),
                  saf_uri = norm_path d @ ''/'' @ nm,
                  saf_lastModified = (case n of File c t \<Rightarrow> t | Dir t \<Rightarrow> t)\<rparr>)
               (children w d))
      | _ \<Rightarrow> Inl (NotFound d))"

section \<open>The service\<close>

datatype Platform = Web | Android | Ios

text \<open>
  The fields of the \<open>FileSystemService\<close> singleton, with \<open>Platform.OS\<close>. The two
  \<open>Map\<close>s are association lists. For \<open>directoryPreferenceCache\<close>, \<open>None\<close> is
  \<open>undefined\<close> (not loaded) and \<open>Some None\<close> is \<open>null\<close> (no preference).
\<close>

record FileSystemService =
  platform_OS :: Platform
  notesDirectory :: string
  customDirectory :: "string option"
  userPreferences :: UserPreferences
  currentDirectory :: "string option"
  notesCache :: "(string \<times> NotePreview list) list"
  noteContentCache :: "(string \<times> Note) list"
  directoryPreferenceCache :: "string option option"
  lastCacheUpdate :: time
  cacheValidityDuration :: time

text \<open>The constructor; \<open>documentDirectory\<close> is \<open>FileSystem.documentDirectory\<close>.\<close>

definition new_service :: "Platform \<Rightarrow> string \<Rightarrow> FileSystemService" where
  "new_service os documentDirectory =
     \<lparr>platform_OS = os,
      notesDirectory = (if os = Web then ''Notes'' else documentDirectory @ ''Notes/''),
      customDirectory = None,
      userPreferences = DEFAULT_PREFERENCES,
      currentDirectory = None,
      notesCache = [],
      noteContentCache = [],
      directoryPreferenceCache = None,
      lastCacheUpdate = 0,
      cacheValidityDuration = 5 * 60 * 1000\<rparr>"

text \<open>\<open>a || b\<close> where \<open>a\<close> may be \<open>null\<close>, \<open>undefined\<close> or the empty string.\<close>

definition truthy :: "string option \<Rightarrow> bool" where
  "truthy a = (case a of None \<Rightarrow> False | Some x \<Rightarrow> x \<noteq> [])"

definition opt_or :: "string option \<Rightarrow> string \<Rightarrow> string" where
  "opt_or a b = (case a of None \<Rightarrow> b | Some x \<Rightarrow> or_else x b)"

definition getNotesDirectory :: "FileSystemService \<Rightarrow> string" where
  "getNotesDirectory s = opt_or (customDirectory s) (notesDirectory s)"

definition getCurrentDirectory :: "FileSystemService \<Rightarrow> string" where
  "getCurrentDirectory s = opt_or (currentDirectory s) (getNotesDirectory s)"

definition setCurrentDirectory :: "FileSystemService \<Rightarrow> string \<Rightarrow> FileSystemService" where
  "setCurrentDirectory s p = s\<lparr>currentDirectory := Some p\<rparr>"

definition resetToRootDirectory :: "FileSystemService \<Rightarrow> FileSystemService" where
  "resetToRootDirectory s = s\<lparr>currentDirectory := None\<rparr>"

definition clearCache :: "FileSystemService \<Rightarrow> FileSystemService" where
  "clearCache s = s\<lparr>notesCache := [], noteContentCache := [], lastCacheUpdate := 0\<rparr>"

definition isCacheValid :: "FileSystemService \<Rightarrow> world \<Rightarrow> bool" where
  "isCacheValid s w = (now w - lastCacheUpdate s < cacheValidityDuration s)"

definition getCacheKey :: "string \<Rightarrow> string" where
  "getCacheKey dir = ''notes_'' @ dir"

text \<open>
  \<open>setCustomDirectory(directory)\<close>. The last argument is the behaviour of the
  \<open>AsyncStorage\<close> call it makes (\<open>setItem\<close>, or \<open>removeItem\<close> for the empty string);
  a failure is caught and logged.
\<close>

definition setCustomDirectory ::
  "FileSystemService \<Rightarrow> string \<Rightarrow> ('e, unit) pending \<Rightarrow> FileSystemService" where
  "setCustomDirectory s dir operation =
     (let s1 = s\<lparr>customDirectory := Some dir,
                  directoryPreferenceCache := Some (if dir \<noteq> [] then Some dir else None)\<rparr>;
          s2 = clearCache s1;
          saved = (if dir \<noteq> []
                   then snd (setItem ''notes_directory_preference'' dir None operation)
                   else snd (removeItem ''notes_directory_preference'' None operation))
      in case saved of Inl e \<Rightarrow> s2 | Inr u \<Rightarrow> s2)"

text \<open>\<open>loadDirectoryPreference()\<close>, with the behaviour of its \<open>getItem\<close> call.\<close>

definition loadDirectoryPreference ::
  "FileSystemService \<Rightarrow> ('e, string option) pending \<Rightarrow> FileSystemService" where
  "loadDirectoryPreference s operation =
     (case directoryPreferenceCache s of
        Some cached \<Rightarrow>
          (case cached of
             Some dir \<Rightarrow> s\<lparr>customDirectory := Some dir\<rparr>
           | None \<Rightarrow> s)
      | None \<Rightarrow>
          if platform_OS s = Web then s\<lparr>directoryPreferenceCache := Some None\<rparr>
          else
            (case snd (getItem ''notes_directory_preference'' None operation) of
               Inr savedDirectory \<Rightarrow>
                 if truthy savedDirectory
                 then s\<lparr>customDirectory := savedDirectory,
                        directoryPreferenceCache := Some savedDirectory\<rparr>
                 else s\<lparr>directoryPreferenceCache := Some None\<rparr>
             | Inl e \<Rightarrow> s\<lparr>directoryPreferenceCache := Some None\<rparr>))"

text \<open>
  \<open>loadUserPreferences()\<close>. \<open>parse\<close> stands for \<open>JSON.parse\<close> seen through the two
  preference fields (\<open>None\<close> is its \<open>SyntaxError\<close>); every failure ends in the
  \<open>catch\<close>, which installs the defaults.
\<close>

definition loadUserPreferences ::
  "(string \<Rightarrow> PartialPreferences option) \<Rightarrow> FileSystemService
   \<Rightarrow> ('e, string option) pending \<Rightarrow> FileSystemService" where
  "loadUserPreferences parse s operation =
     (case snd (getItem ''user_preferences'' None operation) of
        Inl e \<Rightarrow> s\<lparr>userPreferences := DEFAULT_PREFERENCES\<rparr>
      | Inr preferencesData \<Rightarrow>
          if truthy preferencesData then
            (case parse (the preferencesData) of
               None \<Rightarrow> s\<lparr>userPreferences := DEFAULT_PREFERENCES\<rparr>
             | Some payload \<Rightarrow>
                 s\<lparr>userPreferences := spread DEFAULT_PREFERENCES payload\<rparr>)
          else s\<lparr>userPreferences := DEFAULT_PREFERENCES\<rparr>)"

text \<open>
  \<open>JSON.stringify(this.userPreferences)\<close>; it cannot fail on a record of two booleans.
\<close>

definition stringify_preferences :: "UserPreferences \<Rightarrow> string" where
  \<open>stringify_preferences p =
     ''{"showTimestamps":'' @ (if showTimestamps p then ''true'' else ''false'')
     @ '',"welcomeCompleted":'' @ (if welcomeCompleted p then ''true'' else ''false'')
     @ ''}''\<close>

text \<open>
  \<open>saveUserPreferences(preferences)\<close>: the result is \<open>Inr ()\<close> when the promise
  resolves and \<open>Inl e\<close> when it rejects. The assignment to \<open>this.userPreferences\<close>
  comes before the \<open>await\<close>; the \<open>catch\<close> logs and returns.
\<close>

definition saveUserPreferences ::
  "FileSystemService \<Rightarrow> PartialPreferences \<Rightarrow> ('e, unit) pending
   \<Rightarrow> ('e storage_error + unit) \<times> FileSystemService" where
  "saveUserPreferences s preferences operation =
     (let s1 = s\<lparr>userPreferences := spread (userPreferences s) preferences\<rparr>
      in case snd (setItem ''user_preferences''
                     (stringify_preferences (userPreferences s1)) None operation) of
           Inl e \<Rightarrow> (Inr (), s1)
         | Inr u \<Rightarrow> (Inr (), s1))"

definition getUserPreferences :: "FileSystemService \<Rightarrow> UserPreferences" where
  "getUserPreferences s = userPreferences s"

definition getShowTimestamps :: "FileSystemService \<Rightarrow> bool" where
  "getShowTimestamps s = showTimestamps (userPreferences s)"

definition setShowTimestamps ::
  "FileSystemService \<Rightarrow> bool \<Rightarrow> ('e, unit) pending
   \<Rightarrow> ('e storage_error + unit) \<times> FileSystemService" where
  "setShowTimestamps s show_it operation =
     saveUserPreferences s
       \<lparr>showTimestamps_opt = Some show_it, welcomeCompleted_opt = None\<rparr> operation"

definition getWelcomeCompleted :: "FileSystemService \<Rightarrow> bool" where
  "getWelcomeCompleted s = welcomeCompleted (userPreferences s)"

definition setWelcomeCompleted ::
  "FileSystemService \<Rightarrow> bool \<Rightarrow> ('e, unit) pending
   \<Rightarrow> ('e storage_error + unit) \<times> FileSystemService" where
  "setWelcomeCompleted s completed operation =
     saveUserPreferences s
       \<lparr>showTimestamps_opt = None, welcomeCompleted_opt = Some completed\<rparr> operation"

section \<open>Reading, writing and deleting notes\<close>

text \<open>
  \<open>s.trim()\<close>, on the ASCII white space (tab, LF, VT, FF, CR, space).
\<close>

definition is_space :: "char \<Rightarrow> bool" where
  "is_space c = (c \<in> set [CHR 0x09, CHR 0x0A, CHR 0x0B, CHR 0x0C, CHR 0x0D, CHR 0x20])"

definition js_trim :: "string \<Rightarrow> string" where
  "js_trim s = rev (dropWhile is_space (rev (dropWhile is_space s)))"

text \<open>
  The block \<open>// Determine the target directory\<close>, which \<open>getNote\<close>, \<open>saveNote\<close> and
  \<open>deleteNote\<close> each contain word for word. \<open>folderPath\<close> is an optional parameter.
\<close>

definition targetDirOf :: "FileSystemService \<Rightarrow> string option \<Rightarrow> string" where
  "targetDirOf s folderPath =
     (let rootDir = getNotesDirectory s in
      if truthy folderPath \<and> js_trim (the folderPath) \<noteq> [] then
        (if startsWith rootDir ''content://'' then rootDir @ ''/'' @ the folderPath
         else rootDir @ the folderPath @ ''/'')
      else rootDir)"

definition ensureDirectoryExists :: "FileSystemService \<Rightarrow> world \<Rightarrow> io_error + world" where
  "ensureDirectoryExists s w =
     (if platform_OS s = Web then Inr w
      else
        (let currentDir = getNotesDirectory s in
         if startsWith currentDir ''content://'' then Inr w
         else case getInfoAsync w currentDir of
                Inl e \<Rightarrow> Inl e
              | Inr dirInfo \<Rightarrow>
                  if dirInfo = None then makeDirectoryAsync w currentDir else Inr w))"

subsection \<open>The browser backend\<close>

text \<open>The array that \<open>JSON.parse(notesData)\<close> yields inside \<open>saveWebNote\<close>.\<close>

definition stored_notes :: "world \<Rightarrow> web_note list" where
  "stored_notes w =
     (case localStorage_notes w of
        NoItem \<Rightarrow> []
      | Unparsable \<Rightarrow> []
      | Parsed ns \<Rightarrow> ns)"

text \<open>\<open>notes.findIndex(pred)\<close>: \<open>None\<close> is \<open>-1\<close>.\<close>

fun findIndex :: "('a \<Rightarrow> bool) \<Rightarrow> 'a list \<Rightarrow> nat option" where
  "findIndex P [] = None"
| "findIndex P (x # xs) =
     (if P x then Some 0
      else case findIndex P xs of None \<Rightarrow> None | Some i \<Rightarrow> Some (Suc i))"

text \<open>
  \<open>saveWebNote(note)\<close>. The stored entry is \<open>{ ...note, createdAt, updatedAt }\<close>: it has
  the fields of the note, so no \<open>id\<close> and no \<open>preview\<close>.
\<close>

definition saveWebNote :: "world \<Rightarrow> Note \<Rightarrow> world" where
  "saveWebNote w note =
     (let notes0 = stored_notes w;
          existingIndex = findIndex (\<lambda>n. web_filename n = filename note) notes0;
          noteData = \<lparr>web_id = None,
                      web_filename = filename note,
                      web_content = content note,
                      web_preview = None,
                      web_createdAt = createdAt note,
                      web_updatedAt = now w,
                      web_filePath = filePath note\<rparr>;
          notes1 = (case existingIndex of
                      Some i \<Rightarrow> notes0[i := noteData]
                    | None \<Rightarrow> notes0 @ [noteData])
      in w\<lparr>localStorage_notes := Parsed notes1\<rparr>)"

text \<open>\<open>getWebNote(id)\<close>: the entry is looked up by \<open>n.id === id\<close>.\<close>

definition getWebNote :: "world \<Rightarrow> string \<Rightarrow> Note option" where
  "getWebNote w ident =
     (case localStorage_notes w of
        NoItem \<Rightarrow> None
      | Unparsable \<Rightarrow> None
      | Parsed ns \<Rightarrow>
          (case find (\<lambda>n. web_id n = Some ident) ns of
             None \<Rightarrow> None
           | Some n \<Rightarrow>
               Some \<lparr>filename = web_filename n,
                     content = web_content n,
                     createdAt = web_createdAt n,
                     updatedAt = web_updatedAt n,
                     filePath = web_filePath n\<rparr>))"

text \<open>\<open>deleteWebNote(id)\<close>: keeps the entries with \<open>n.id !== id\<close>; never fails.\<close>

definition deleteWebNote :: "world \<Rightarrow> string \<Rightarrow> world" where
  "deleteWebNote w ident =
     (case localStorage_notes w of
        NoItem \<Rightarrow> w
      | Unparsable \<Rightarrow> w
      | Parsed ns \<Rightarrow>
          w\<lparr>localStorage_notes := Parsed (filter (\<lambda>n. web_id n \<noteq> Some ident) ns)\<rparr>)"

subsection \<open>getNote, deleteNote, saveNote\<close>

text \<open>The body of the \<open>try\<close> of \<open>getNote\<close>: \<open>Inl\<close> is an exception thrown in it.\<close>

definition getNote_try ::
  "FileSystemService \<Rightarrow> world \<Rightarrow> string \<Rightarrow> string option \<Rightarrow> io_error + Note" where
  "getNote_try s w fname folderPath =
     (let targetDir = targetDirOf s folderPath in
      if startsWith targetDir ''content://'' then
        (let fileUri = targetDir @ ''/'' @ fname @ ''.md'' in
         case readFile w fileUri of
           Inl e \<Rightarrow> Inl e
         | Inr c \<Rightarrow>
            (case stat w fileUri of
               Inl e \<Rightarrow> Inl e
             | Inr lastModified \<Rightarrow>
                 Inr \<lparr>filename = fname, content = c, createdAt = lastModified,
                      updatedAt = lastModified, filePath = fileUri\<rparr>))
      else
        (let path0 = targetDir @ fname @ ''.md'' in
         case readAsStringAsync w path0 of
           Inl e \<Rightarrow> Inl e
         | Inr c \<Rightarrow>
            (case getInfoAsync w path0 of
               Inl e \<Rightarrow> Inl e
             | Inr fileStat \<Rightarrow>
                 (let modTime = (case fileStat of
                                   None \<Rightarrow> now w
                                 | Some (File c0 t) \<Rightarrow> t
                                 | Some (Dir t) \<Rightarrow> t)
                  in Inr \<lparr>filename = fname, content = c, createdAt = modTime,
                          updatedAt = modTime, filePath = path0\<rparr>))))"

text \<open>
  \<open>getNote(filename, folderPath?)\<close>: the result (\<open>None\<close> is \<open>null\<close>) and the service
  afterwards. The \<open>catch\<close> logs and returns \<open>null\<close>.
\<close>

definition getNote ::
  "FileSystemService \<Rightarrow> world \<Rightarrow> string \<Rightarrow> string option
   \<Rightarrow> Note option \<times> FileSystemService" where
  "getNote s w fname folderPath =
     (if platform_OS s = Web then (getWebNote w fname, s)
      else
        (let cacheKey = ''note_'' @ fname @ ''_'' @ opt_or folderPath ''root'' in
         if isCacheValid s w \<and> map_of (noteContentCache s) cacheKey \<noteq> None
         then (map_of (noteContentCache s) cacheKey, s)
         else case getNote_try s w fname folderPath of
                Inl e \<Rightarrow> (None, s)
              | Inr note \<Rightarrow>
                  (Some note,
                   s\<lparr>noteContentCache := AList.update cacheKey note (noteContentCache s)\<rparr>)))"

text \<open>
  \<open>deleteNote(id, folderPath?)\<close>: \<open>Inr ()\<close> when the promise resolves, \<open>Inl e\<close> when it
  rejects with \<open>e\<close>; with the service and the backend afterwards.
\<close>

definition deleteNote ::
  "FileSystemService \<Rightarrow> world \<Rightarrow> string \<Rightarrow> string option
   \<Rightarrow> (io_error + unit) \<times> FileSystemService \<times> world" where
  "deleteNote s w ident folderPath =
     (if platform_OS s = Web then (Inr (), s, deleteWebNote w ident)
      else
        (let targetDir = targetDirOf s folderPath;
             deleted = (if startsWith targetDir ''content://''
                        then unlink w (targetDir @ ''/'' @ ident @ ''.md'')
                        else deleteAsync w (targetDir @ ident @ ''.md''))
         in case deleted of
              Inl e \<Rightarrow> (Inl e, s, w)
            | Inr w1 \<Rightarrow> (Inr (), clearCache s, w1)))"

text \<open>
  \<open>saveNote(note, oldFilename?, folderPath?)\<close>. \<open>ensureDirectoryExists\<close> is awaited
  before the \<open>try\<close>; the inner \<open>try\<close> around \<open>deleteNote\<close> logs a failure and goes on.
\<close>

definition saveNote ::
  "FileSystemService \<Rightarrow> world \<Rightarrow> Note \<Rightarrow> string option \<Rightarrow> string option
   \<Rightarrow> (io_error + unit) \<times> FileSystemService \<times> world" where
  "saveNote s w note oldFilename folderPath =
     (if platform_OS s = Web then (Inr (), s, saveWebNote w note)
      else case ensureDirectoryExists s w of
        Inl e \<Rightarrow> (Inl e, s, w)
      | Inr w1 \<Rightarrow>
         (let targetDir = targetDirOf s folderPath;
              after_delete =
                (if truthy oldFilename \<and> the oldFilename \<noteq> filename note
                 then snd (deleteNote s w1 (the oldFilename) folderPath)
                 else (s, w1));
              s2 = fst after_delete;
              w2 = snd after_delete;
              written = (if startsWith targetDir ''content://''
                         then writeFile w2 (targetDir @ ''/'' @ filename note @ ''.md'')
                                (content note)
                         else writeAsStringAsync w2 (targetDir @ filename note @ ''.md'')
                                (content note))
          in case written of
               Inl e \<Rightarrow> (Inl e, s2, w2)
             | Inr w3 \<Rightarrow> (Inr (), clearCache s2, w3)))"

section \<open>Listings\<close>

text \<open>
  \<open>array.sort(compare)\<close>: the sort is stable; an element goes before the first element
  of the sorted rest that it does not compare greater than.
\<close>

fun insert_by :: "('a \<Rightarrow> 'a \<Rightarrow> int) \<Rightarrow> 'a \<Rightarrow> 'a list \<Rightarrow> 'a list" where
  "insert_by cmp x [] = [x]"
| "insert_by cmp x (y # ys) =
     (if cmp x y \<le> 0 then x # y # ys else y # insert_by cmp x ys)"

definition js_sort :: "('a \<Rightarrow> 'a \<Rightarrow> int) \<Rightarrow> 'a list \<Rightarrow> 'a list" where
  "js_sort cmp xs = foldr (insert_by cmp) xs []"

text \<open>The comparator \<open>(a, b) => b.updatedAt.getTime() - a.updatedAt.getTime()\<close>.\<close>

definition newest_first :: "NotePreview \<Rightarrow> NotePreview \<Rightarrow> int" where
  "newest_first a b = preview_updatedAt b - preview_updatedAt a"

text \<open>\<open>s.replace(pat, rep)\<close> with a string pattern: the first occurrence only.\<close>

fun replace_first :: "string \<Rightarrow> string \<Rightarrow> string \<Rightarrow> string" where
  "replace_first pat rep [] = (if pat = [] then rep else [])"
| "replace_first pat rep (c # cs) =
     (if prefix pat (c # cs) then rep @ drop (length pat) (c # cs)
      else c # replace_first pat rep cs)"

text \<open>
  \<open>Promise.all\<close> over promises that are already settled in the model: the array of
  results, or a rejection if one of them rejects.
\<close>

fun promise_all :: "('e + 'a) list \<Rightarrow> 'e + 'a list" where
  "promise_all [] = Inr []"
| "promise_all (r # rs) =
     (case r of
        Inl e \<Rightarrow> Inl e
      | Inr v \<Rightarrow> (case promise_all rs of Inl e \<Rightarrow> Inl e | Inr vs \<Rightarrow> Inr (v # vs)))"

text \<open>\<open>results.filter(x => x !== null)\<close>.\<close>

definition non_null :: "'a option list \<Rightarrow> 'a list" where
  "non_null rs = List.map_filter (\<lambda>r. r) rs"

subsection \<open>getAllNotes\<close>

text \<open>
  \<open>getSAFNotes\<close> and \<open>getFileSystemNotes\<close> are each in two parts: the \<open>try\<close> block
  with its \<open>catch\<close> (\<open>_io\<close>), which reads the backend and fills the cache, and the
  function itself, which answers from the cache when it can.
\<close>

definition getSAFNotes_io ::
  "FileSystemService \<Rightarrow> world \<Rightarrow> string \<Rightarrow> NotePreview list \<times> FileSystemService" where
  "getSAFNotes_io s w directoryUri =
     (case listFiles w directoryUri of
        Inl e \<Rightarrow> ([], s)
      | Inr files \<Rightarrow>
         (let markdownFiles =
                filter (\<lambda>f. endsWith (saf_name f) ''.md'' \<and> saf_type f = SafFile) files;
              notesResults =
                map (\<lambda>f. case readFile w (saf_uri f) of
                            Inl e \<Rightarrow> None
                          | Inr c \<Rightarrow>
                              Some \<lparr>preview_filename = replace_first ''.md'' [] (saf_name f),
                                    preview = take 200 c,
                                    preview_createdAt = saf_lastModified f,
                                    preview_updatedAt = saf_lastModified f,
                                    preview_filePath = saf_uri f\<rparr>)
                    markdownFiles;
              sortedNotes = js_sort newest_first (non_null notesResults)
          in (sortedNotes,
              s\<lparr>notesCache :=
                   AList.update (getCacheKey directoryUri) sortedNotes (notesCache s),
                lastCacheUpdate := now w\<rparr>)))"

definition getSAFNotes ::
  "FileSystemService \<Rightarrow> world \<Rightarrow> string \<Rightarrow> NotePreview list \<times> FileSystemService" where
  "getSAFNotes s w directoryUri =
     (let cacheKey = getCacheKey directoryUri in
      if isCacheValid s w \<and> map_of (notesCache s) cacheKey \<noteq> None
      then (the (map_of (notesCache s) cacheKey), s)
      else getSAFNotes_io s w directoryUri)"

definition getFileSystemNotes_io ::
  "FileSystemService \<Rightarrow> world \<Rightarrow> string \<Rightarrow> NotePreview list \<times> FileSystemService" where
  "getFileSystemNotes_io s w currentDir =
     (case readDirectoryAsync w currentDir of
        Inl e \<Rightarrow> ([], s)
      | Inr files \<Rightarrow>
         (let markdownFiles = filter (\<lambda>f. endsWith f ''.md'') files;
              notesResults =
                map (\<lambda>f.
                      (let path0 = currentDir @ f in
                       case readAsStringAsync w path0 of
                         Inl e \<Rightarrow> None
                       | Inr c \<Rightarrow>
                          (case getInfoAsync w path0 of
                             Inl e \<Rightarrow> None
                           | Inr st \<Rightarrow>
                              (let modTime = (case st of
                                                None \<Rightarrow> now w
                                              | Some (File c0 t) \<Rightarrow> t
                                              | Some (Dir t) \<Rightarrow> t)
                               in Some \<lparr>preview_filename = replace_first ''.md'' [] f,
                                        preview = take 200 c,
                                        preview_createdAt = modTime,
                                        preview_updatedAt = modTime,
                                        preview_filePath = path0\<rparr>))))
                    markdownFiles;
              sortedNotes = js_sort newest_first (non_null notesResults)
          in (sortedNotes,
              s\<lparr>notesCache :=
                   AList.update (getCacheKey currentDir) sortedNotes (notesCache s),
                lastCacheUpdate := now w\<rparr>)))"

definition getFileSystemNotes ::
  "FileSystemService \<Rightarrow> world \<Rightarrow> string \<Rightarrow> NotePreview list \<times> FileSystemService" where
  "getFileSystemNotes s w currentDir =
     (let cacheKey = getCacheKey currentDir in
      if isCacheValid s w \<and> map_of (notesCache s) cacheKey \<noteq> None
      then (the (map_of (notesCache s) cacheKey), s)
      else getFileSystemNotes_io s w currentDir)"

text \<open>
  \<open>getWebNotes()\<close>: the stored entries with their dates revived. An entry without
  \<open>preview\<close> has the empty preview here.
\<close>

definition getWebNotes :: "world \<Rightarrow> NotePreview list" where
  "getWebNotes w =
     (case localStorage_notes w of
        NoItem \<Rightarrow> []
      | Unparsable \<Rightarrow> []
      | Parsed ns \<Rightarrow>
          map (\<lambda>n. \<lparr>preview_filename = web_filename n,
                     preview = (case web_preview n of None \<Rightarrow> [] | Some p \<Rightarrow> p),
                     preview_createdAt = web_createdAt n,
                     preview_updatedAt = web_updatedAt n,
                     preview_filePath = web_filePath n\<rparr>) ns)"

text \<open>
  \<open>getAllNotes()\<close>, with the behaviour of the \<open>getItem\<close> call inside
  \<open>loadDirectoryPreference\<close>. Both are awaited before the \<open>try\<close>, so a failure of
  \<open>ensureDirectoryExists\<close> rejects the call.
\<close>

definition getAllNotes ::
  "FileSystemService \<Rightarrow> world \<Rightarrow> ('e, string option) pending
   \<Rightarrow> (io_error + NotePreview list) \<times> FileSystemService \<times> world" where
  "getAllNotes s w operation =
     (let s1 = loadDirectoryPreference s operation in
      case ensureDirectoryExists s1 w of
        Inl e \<Rightarrow> (Inl e, s1, w)
      | Inr w1 \<Rightarrow>
          if platform_OS s1 = Web then (Inr (getWebNotes w1), s1, w1)
          else
            (let currentDir = getNotesDirectory s1;
                 res = (if startsWith currentDir ''content://''
                        then getSAFNotes s1 w1 currentDir
                        else getFileSystemNotes s1 w1 currentDir)
             in (Inr (fst res), snd res, w1)))"

subsection \<open>getDirectoryContents\<close>

text \<open>
  \<open>buildDirectoryContents\<close>. The built-in \<open>String.prototype.localeCompare\<close> is the
  parameter \<open>localeCompare\<close>: the collation of the platform, negative, zero or positive.
\<close>

definition buildDirectoryContents ::
  "(string \<Rightarrow> string \<Rightarrow> int) \<Rightarrow> FolderItem list \<Rightarrow> NotePreview list \<Rightarrow> string \<Rightarrow> string
   \<Rightarrow> DirectoryContents" where
  "buildDirectoryContents localeCompare folders0 notes0 currentPath0 rootPath =
     \<lparr>folders = js_sort (\<lambda>a b. localeCompare (name a) (name b)) folders0,
      note_items = js_sort newest_first notes0,
      currentPath = currentPath0,
      parentPath = getParentPath currentPath0 rootPath\<rparr>"

definition buildEmptyDirectoryContents :: "string \<Rightarrow> string \<Rightarrow> DirectoryContents" where
  "buildEmptyDirectoryContents currentPath0 rootPath =
     \<lparr>folders = [],
      note_items = [],
      currentPath = currentPath0,
      parentPath = getParentPath currentPath0 rootPath\<rparr>"

text \<open>\<open>separateFoldersAndMarkdownFiles\<close>: the loop, entry by entry.\<close>

fun separateFoldersAndMarkdownFiles :: "saf_file list \<Rightarrow> FolderItem list \<times> saf_file list" where
  "separateFoldersAndMarkdownFiles [] = ([], [])"
| "separateFoldersAndMarkdownFiles (f # fs) =
     (let rest = separateFoldersAndMarkdownFiles fs in
      if saf_type f = SafDirectory then
        (\<lparr>name = saf_name f, path = saf_uri f,
          folder_createdAt = saf_lastModified f,
          folder_updatedAt = saf_lastModified f\<rparr> # fst rest, snd rest)
      else if endsWith (saf_name f) ''.md'' then (fst rest, f # snd rest)
      else rest)"

text \<open>
  \<open>processMarkdownFiles(files, processFile)\<close>: \<open>Promise.all\<close> over the per-file
  promises, then the non-null results. \<open>processFile\<close> has no \<open>try\<close> of its own here.
\<close>

definition processMarkdownFiles ::
  "'f list \<Rightarrow> ('f \<Rightarrow> io_error + NotePreview option) \<Rightarrow> io_error + NotePreview list" where
  "processMarkdownFiles files processFile =
     (case promise_all (map processFile files) of
        Inl e \<Rightarrow> Inl e
      | Inr notesResults \<Rightarrow> Inr (non_null notesResults))"

definition getSAFDirectoryContents ::
  "(string \<Rightarrow> string \<Rightarrow> int) \<Rightarrow> world \<Rightarrow> string \<Rightarrow> string \<Rightarrow> DirectoryContents" where
  "getSAFDirectoryContents localeCompare w directoryUri rootPath =
     (case listFiles w directoryUri of
        Inl e \<Rightarrow> buildEmptyDirectoryContents directoryUri rootPath
      | Inr files \<Rightarrow>
         (let sep = separateFoldersAndMarkdownFiles files in
          case processMarkdownFiles (snd sep)
                 (\<lambda>f. case readFile w (saf_uri f) of
                         Inl e \<Rightarrow> Inl e
                       | Inr c \<Rightarrow>
                           Inr (Some \<lparr>preview_filename = replace_first ''.md'' [] (saf_name f),
                                      preview = take 200 c,
                                      preview_createdAt = saf_lastModified f,
                                      preview_updatedAt = saf_lastModified f,
                                      preview_filePath = saf_uri f\<rparr>)) of
            Inl e \<Rightarrow> buildEmptyDirectoryContents directoryUri rootPath
          | Inr notes0 \<Rightarrow>
              buildDirectoryContents localeCompare (fst sep) notes0 directoryUri rootPath))"

text \<open>
  \<open>processRegularFiles(files, currentDir)\<close>: the names ending in \<open>.md\<close>, and a folder for
  each other name that \<open>getInfoAsync\<close> reports as a directory; a failing
  \<open>getInfoAsync\<close> drops the name.
\<close>

definition processRegularFiles ::
  "world \<Rightarrow> string list \<Rightarrow> string \<Rightarrow> FolderItem list \<times> string list" where
  "processRegularFiles w files currentDir =
     (let markdownFiles = filter (\<lambda>f. endsWith f ''.md'') files;
          regularFiles = filter (\<lambda>f. \<not> endsWith f ''.md'') files;
          folderResults =
            map (\<lambda>f. (let path0 = currentDir @ f in
                       case getInfoAsync w path0 of
                         Inl e \<Rightarrow> None
                       | Inr st \<Rightarrow>
                          (case st of
                             Some (Dir t) \<Rightarrow>
                               Some \<lparr>name = f, path = path0 @ ''/'',
                                     folder_createdAt = t, folder_updatedAt = t\<rparr>
                           | _ \<Rightarrow> None)))
                regularFiles
      in (non_null folderResults, markdownFiles))"

definition getFileSystemDirectoryContents ::
  "(string \<Rightarrow> string \<Rightarrow> int) \<Rightarrow> world \<Rightarrow> string \<Rightarrow> string \<Rightarrow> DirectoryContents" where
  "getFileSystemDirectoryContents localeCompare w currentDir rootPath =
     (case readDirectoryAsync w currentDir of
        Inl e \<Rightarrow> buildEmptyDirectoryContents currentDir rootPath
      | Inr files \<Rightarrow>
         (let sep = processRegularFiles w files currentDir in
          case processMarkdownFiles (snd sep)
                 (\<lambda>f. (let path0 = currentDir @ f in
                        case readAsStringAsync w path0 of
                          Inl e \<Rightarrow> Inl e
                        | Inr c \<Rightarrow>
                           (case getInfoAsync w path0 of
                              Inl e \<Rightarrow> Inl e
                            | Inr st \<Rightarrow>
                               (let modTime = (case st of
                                                 None \<Rightarrow> now w
                                               | Some (File c0 t) \<Rightarrow> t
                                               | Some (Dir t) \<Rightarrow> t)
                                in Inr (Some \<lparr>preview_filename = replace_first ''.md'' [] f,
                                              preview = take 200 c,
                                              preview_createdAt = modTime,
                                              preview_updatedAt = modTime,
                                              preview_filePath = path0\<rparr>))))) of
            Inl e \<Rightarrow> buildEmptyDirectoryContents currentDir rootPath
          | Inr notes0 \<Rightarrow>
              buildDirectoryContents localeCompare (fst sep) notes0 currentDir rootPath))"

text \<open>
  \<open>getWebDirectoryContents\<close>: \<open>note.preview || note.content?.substring(0, 200) || ''\<close>
  and \<open>note.filePath || `${targetPath}/${note.filename}.md`\<close> for each stored entry.
\<close>

definition getWebDirectoryContents :: "world \<Rightarrow> string \<Rightarrow> string \<Rightarrow> DirectoryContents" where
  "getWebDirectoryContents w targetPath rootPath =
     (let notes0 =
            map (\<lambda>n. \<lparr>preview_filename = web_filename n,
                       preview = opt_or (web_preview n) (or_else (take 200 (web_content n)) []),
                       preview_createdAt = web_createdAt n,
                       preview_updatedAt = web_updatedAt n,
                       preview_filePath =
                         or_else (web_filePath n) (targetPath @ ''/'' @ web_filename n @ ''.md'')\<rparr>)
                (stored_notes w)
      in \<lparr>folders = [],
          note_items = js_sort newest_first notes0,
          currentPath = targetPath,
          parentPath = None\<rparr>)"

text \<open>
  \<open>getDirectoryContents(directoryPath?)\<close>, with the behaviour of the \<open>getItem\<close> call
  inside \<open>loadDirectoryPreference\<close>. \<open>targetPath\<close> and \<open>rootPath\<close> are read before the
  preference is loaded. The two backend functions catch every failure themselves, so
  the outer \<open>catch\<close> is never entered.
\<close>

definition getDirectoryContents ::
  "(string \<Rightarrow> string \<Rightarrow> int) \<Rightarrow> FileSystemService \<Rightarrow> world \<Rightarrow> string option
   \<Rightarrow> ('e, string option) pending
   \<Rightarrow> (io_error + DirectoryContents) \<times> FileSystemService \<times> world" where
  "getDirectoryContents localeCompare s w directoryPath operation =
     (let targetPath = opt_or directoryPath (getCurrentDirectory s);
          rootPath = getNotesDirectory s;
          s1 = loadDirectoryPreference s operation
      in case ensureDirectoryExists s1 w of
           Inl e \<Rightarrow> (Inl e, s1, w)
         | Inr w1 \<Rightarrow>
             (Inr (if platform_OS s1 = Web
                   then getWebDirectoryContents w1 targetPath rootPath
                   else if startsWith targetPath ''content://''
                   then getSAFDirectoryContents localeCompare w1 targetPath rootPath
                   else getFileSystemDirectoryContents localeCompare w1 targetPath rootPath),
              s1, w1))"

section \<open>Comparators\<close>

text \<open>
  What \<open>Array.prototype.sort\<close> asks of its comparator (a consistent comparator): any
  two elements are comparable, and the order is transitive.
\<close>

definition consistent :: "('a \<Rightarrow> 'a \<Rightarrow> int) \<Rightarrow> bool" where
  "consistent cmp \<longleftrightarrow>
     (\<forall>a b. cmp a b \<le> 0 \<or> cmp b a \<le> 0)
     \<and> (\<forall>a b c. cmp a b \<le> 0 \<and> cmp b c \<le> 0 \<longrightarrow> cmp a c \<le> 0)"

text \<open>
  One collation that ignores letter case: the lower-cased names, compared byte by
  byte. It is one comparator the listing results can be instantiated with.
\<close>

definition codes :: "string \<Rightarrow> nat list" where
  "codes s = map of_char s"

definition bytes_le :: "string \<Rightarrow> string \<Rightarrow> bool" where
  "bytes_le x y = (\<not> ord_class.lexordp (codes y) (codes x))"

definition caseless_compare :: "string \<Rightarrow> string \<Rightarrow> int" where
  "caseless_compare a b =
     (if ord_class.lexordp (codes (toLowerCase a)) (codes (toLowerCase b)) then - 1
      else if ord_class.lexordp (codes (toLowerCase b)) (codes (toLowerCase a)) then 1
      else 0)"

text \<open>A listing in the order the service promises.\<close>

definition listing_sorted :: "(string \<Rightarrow> string \<Rightarrow> int) \<Rightarrow> DirectoryContents \<Rightarrow> bool" where
  "listing_sorted lc dc \<longleftrightarrow>
     sorted_wrt (\<lambda>a b. lc (name a) (name b) \<le> 0) (folders dc)
     \<and> sorted_wrt (\<lambda>a b. preview_updatedAt b \<le> preview_updatedAt a) (note_items dc)"

text \<open>
  The locator that \<open>getNote\<close>, \<open>saveNote\<close> and \<open>deleteNote\<close> build for a file name:
  \<open>`${targetDir}/${name}.md`\<close> under a content URI, \<open>`${targetDir}${name}.md`\<close>
  otherwise.
\<close>

definition note_locator :: "FileSystemService \<Rightarrow> string option \<Rightarrow> string \<Rightarrow> string" where
  "note_locator s folderPath fname =
     (let targetDir = targetDirOf s folderPath in
      if startsWith targetDir ''content://'' then targetDir @ ''/'' @ fname @ ''.md''
      else targetDir @ fname @ ''.md'')"

text \<open>The primitive that \<open>deleteNote\<close> and \<open>saveNote\<close> end up calling at a locator.\<close>

definition delete_primitive :: "FileSystemService \<Rightarrow> string option \<Rightarrow> world \<Rightarrow> string \<Rightarrow> io_error + world" where
  "delete_primitive s folderPath w p =
     (if startsWith (targetDirOf s folderPath) ''content://'' then unlink w p
      else deleteAsync w p)"

definition write_primitive ::
  "FileSystemService \<Rightarrow> string option \<Rightarrow> world \<Rightarrow> string \<Rightarrow> string \<Rightarrow> io_error + world" where
  "write_primitive s folderPath w p c =
     (if startsWith (targetDirOf s folderPath) ''content://'' then writeFile w p c
      else writeAsStringAsync w p c)"

section \<open>The states the service can be in\<close>

text \<open>
  The public methods that change the service or the backend, with their arguments and
  with the behaviour of the \<open>AsyncStorage\<close> call inside, where there is one.
\<close>

datatype call =
    SetCurrentDirectory string
  | ResetToRootDirectory
  | SetCustomDirectory string "(string, unit) pending"
  | LoadDirectoryPreference "(string, string option) pending"
  | LoadUserPreferences "string \<Rightarrow> PartialPreferences option" "(string, string option) pending"
  | SaveUserPreferences PartialPreferences "(string, unit) pending"
  | GetAllNotes "(string, string option) pending"
  | GetNote string "string option"
  | SaveNote Note "string option" "string option"
  | DeleteNote string "string option"
  | GetDirectoryContents "string \<Rightarrow> string \<Rightarrow> int" "string option"
      "(string, string option) pending"

fun perform :: "call \<Rightarrow> FileSystemService \<Rightarrow> world \<Rightarrow> FileSystemService \<times> world" where
  "perform (SetCurrentDirectory p) s w = (setCurrentDirectory s p, w)"
| "perform ResetToRootDirectory s w = (resetToRootDirectory s, w)"
| "perform (SetCustomDirectory d operation) s w = (setCustomDirectory s d operation, w)"
| "perform (LoadDirectoryPreference operation) s w = (loadDirectoryPreference s operation, w)"
| "perform (LoadUserPreferences parse operation) s w =
     (loadUserPreferences parse s operation, w)"
| "perform (SaveUserPreferences prefs operation) s w =
     (snd (saveUserPreferences s prefs operation), w)"
| "perform (GetAllNotes operation) s w = snd (getAllNotes s w operation)"
| "perform (GetNote fname folderPath) s w = (snd (getNote s w fname folderPath), w)"
| "perform (SaveNote note oldFilename folderPath) s w =
     snd (saveNote s w note oldFilename folderPath)"
| "perform (DeleteNote ident folderPath) s w = snd (deleteNote s w ident folderPath)"
| "perform (GetDirectoryContents localeCompare directoryPath operation) s w =
     snd (getDirectoryContents localeCompare s w directoryPath operation)"

text \<open>
  The service starts as the constructor leaves it and changes only through calls of
  its methods, against whatever the backend holds at the time.
\<close>

inductive reachable :: "FileSystemService \<Rightarrow> bool" where
  initial: "reachable (new_service os documentDirectory)"
| step: "reachable s \<Longrightarrow> reachable (fst (perform c s w))"

text \<open>Both caches empty and the time stamp at zero: what \<open>clearCache\<close> establishes.\<close>

definition cache_cleared :: "FileSystemService \<Rightarrow> bool" where
  "cache_cleared s \<longleftrightarrow>
     notesCache s = [] \<and> noteContentCache s = [] \<and> lastCacheUpdate s = 0"

text \<open>
  What a method call leaves as it is: the platform and the validity window; and on the
  browser platform, where no method fills the cache, a cleared cache.
\<close>

definition kept :: "FileSystemService \<Rightarrow> FileSystemService \<Rightarrow> bool" where
  "kept s s' \<longleftrightarrow>
     platform_OS s' = platform_OS s
     \<and> cacheValidityDuration s' = cacheValidityDuration s
     \<and> (platform_OS s = Web \<and> cache_cleared s \<longrightarrow> cache_cleared s')"

section \<open>Example data\<close>

text \<open>
  A device whose app folder \<open>file:///data/Notes/\<close> holds two folders and two notes,
  an empty device, and an empty browser store.
\<close>

definition demo_world :: world where
  "demo_world =
     \<lparr>entries = [(''file:///data/Notes'', Dir 1),
                 (''file:///data/Notes/zeta'', Dir 2),
                 (''file:///data/Notes/Alpha'', Dir 3),
                 (''file:///data/Notes/x.md'', File ''X'' 4),
                 (''file:///data/Notes/y.md'', File ''Y'' 9)],
      faults = [],
      now = 1700000000000,
      localStorage_notes = NoItem\<rparr>"

definition empty_world :: world where
  "empty_world = \<lparr>entries = [], faults = [], now = 1700000000000, localStorage_notes = NoItem\<rparr>"

definition app_service :: FileSystemService where
  "app_service = new_service Android ''file:///data/''"

definition web_service :: FileSystemService where
  "web_service = new_service Web []"

definition demo_note :: Note where
  "demo_note = \<lparr>filename = ''a'', content = ''hello'', createdAt = 5, updatedAt = 5,
                 filePath = []\<rparr>"

text \<open>
  The note \<open>a\<close> under its new name \<open>b\<close>; a device that holds \<open>a.md\<close>; the same device
  when the backend rejects deleting \<open>a.md\<close>; a browser store that holds the note \<open>a\<close>
  as \<open>saveWebNote\<close> writes it.
\<close>

definition renamed_note :: Note where
  "renamed_note = demo_note\<lparr>filename := ''b''\<rparr>"

definition saved_world :: world where
  "saved_world =
     \<lparr>entries = [(''file:///data/Notes'', Dir 1700000000000),
                 (''file:///data/Notes/a.md'', File ''hello'' 1700000000000)],
      faults = [],
      now = 1700000000000,
      localStorage_notes = NoItem\<rparr>"

definition stuck_world :: world where
  "stuck_world = saved_world\<lparr>faults := [(Delete, ''file:///data/Notes/a.md'')]\<rparr>"

definition web_world :: world where
  "web_world =
     \<lparr>entries = [],
      faults = [],
      now = 1700000000000,
      localStorage_notes =
        Parsed [\<lparr>web_id = None, web_filename = ''a'', web_content = ''hello'',
                  web_preview = None, web_createdAt = 5, web_updatedAt = 1700000000000,
                  web_filePath = []\<rparr>]\<rparr>"

section \<open>Facts about the string primitives\<close>

lemma split_on_app: "c \<notin> set st \<Longrightarrow> split_on c (st @ c # rel) = st # split_on c rel"
  by (induction st) auto

lemma split_on_ne: "split_on c s \<noteq> []"
  by (induction s) (auto split: list.splits)

lemma join_split: "join_with [c] (split_on c s) = s"
proof (induction s)
  case Nil
  show ?case by simp
next
  case (Cons a s)
  obtain p ps where sp: "split_on c s = p # ps"
    using split_on_ne [of c s] by (cases "split_on c s") auto
  show ?case
  proof (cases "a = c")
    case True
    with Cons sp show ?thesis by simp
  next
    case False
    with Cons sp show ?thesis by (cases ps) auto
  qed
qed

lemma split_on_none: "c \<notin> set s \<Longrightarrow> split_on c s = [s]"
  by (induction s) auto

lemma includes_char: "str_includes s [c] \<longleftrightarrow> c \<in> set s"
  by (induction s) auto

lemma sep_unique:
  "c \<notin> set st \<Longrightarrow> c \<notin> set q \<Longrightarrow> st @ c # rel = q @ c # zs \<Longrightarrow> st = q"
proof (induction st arbitrary: q)
  case Nil
  then show ?case by (cases q) auto
next
  case (Cons a st)
  then show ?case by (cases q) auto
qed

lemma not_primary_prefix:
  assumes "CHR '':'' \<notin> set st" and "st \<noteq> ''primary''"
  shows "\<not> prefix ''primary:'' (st @ CHR '':'' # rel)"
proof
  assume "prefix ''primary:'' (st @ CHR '':'' # rel)"
  then obtain zs where "st @ CHR '':'' # rel = ''primary:'' @ zs"
    unfolding prefix_def by blast
  then have eq: "st @ CHR '':'' # rel = ''primary'' @ CHR '':'' # zs" by simp
  have np: "CHR '':'' \<notin> set ''primary''" by simp
  have "st = ''primary''"
    using assms(1) np eq by (rule sep_unique)
  with assms(2) show False by simp
qed

lemma no_colon_not_primary:
  assumes "CHR '':'' \<notin> set p"
  shows "\<not> prefix ''primary:'' p"
proof
  assume "prefix ''primary:'' p"
  then have "set ''primary:'' \<subseteq> set p" by (rule set_mono_prefix)
  moreover have "CHR '':'' \<in> set ''primary:''" by simp
  ultimately show False using assms by blast
qed

section \<open>parseSafUriToReadablePath, branch by branch\<close>

lemma parse_not_content:
  "\<not> startsWith u ''content://'' \<Longrightarrow> parseSafUriToReadablePath dec u = u"
  by (simp add: parseSafUriToReadablePath_def)

lemma parse_no_tree:
  "startsWith u ''content://'' \<Longrightarrow> treeMatch u = None \<Longrightarrow>
   parseSafUriToReadablePath dec u = ''Custom Folder''"
  by (simp add: parseSafUriToReadablePath_def)

lemma parse_decode_error:
  "startsWith u ''content://'' \<Longrightarrow> treeMatch u = Some raw \<Longrightarrow> dec raw = None \<Longrightarrow>
   parseSafUriToReadablePath dec u = ''Custom Folder''"
  by (simp add: parseSafUriToReadablePath_def)

lemma parse_primary:
  "startsWith u ''content://'' \<Longrightarrow> treeMatch u = Some raw \<Longrightarrow>
   dec raw = Some (''primary:'' @ rel) \<Longrightarrow>
   parseSafUriToReadablePath dec u = (if rel = [] then ''Internal Storage'' else rel)"
  by (simp add: parseSafUriToReadablePath_def startsWith_def or_else_def Let_def)

lemma parse_colon:
  assumes "startsWith u ''content://''" "treeMatch u = Some raw"
    "dec raw = Some (st @ CHR '':'' # rel)" "CHR '':'' \<notin> set st" "st \<noteq> ''primary''"
  shows "parseSafUriToReadablePath dec u =
     (if str_includes (toLowerCase st) ''sd'' \<or> str_includes (toLowerCase st) ''external''
      then (if rel \<noteq> [] then ''SD Card/'' @ rel else ''SD Card'')
      else (if rel \<noteq> [] then st @ ''/'' @ rel else st))"
proof -
  have sp: "split_on CHR '':'' (st @ CHR '':'' # rel) = st # split_on CHR '':'' rel"
    using assms(4) by (rule split_on_app)
  have np: "\<not> prefix ''primary:'' (st @ CHR '':'' # rel)"
    using assms(4,5) by (rule not_primary_prefix)
  have inc: "str_includes (st @ CHR '':'' # rel) '':''"
    by (simp add: includes_char)
  have len: "2 \<le> length (st # split_on CHR '':'' rel)"
    using split_on_ne [of "CHR '':''" rel] by (cases "split_on CHR '':'' rel") auto
  have j: "join_with '':'' (split_on CHR '':'' rel) = rel"
    by (rule join_split)
  show ?thesis
    unfolding parseSafUriToReadablePath_def
    using assms(1,2,3,5) np inc len j
    by (simp add: sp startsWith_def Let_def
          del: str_includes.simps split_on.simps join_with.simps)
qed

lemma parse_no_colon:
  assumes "startsWith u ''content://''" "treeMatch u = Some raw"
    "dec raw = Some p" "CHR '':'' \<notin> set p"
  shows "parseSafUriToReadablePath dec u = (if p = [] then ''Custom Folder'' else p)"
proof -
  have np: "\<not> prefix ''primary:'' p"
    using assms(4) by (rule no_colon_not_primary)
  have inc: "\<not> str_includes p '':''"
    using assms(4) by (simp add: includes_char)
  show ?thesis
    unfolding parseSafUriToReadablePath_def
    using assms(1,2,3) np inc
    by (simp add: startsWith_def Let_def or_else_def
          del: str_includes.simps split_on.simps join_with.simps)
qed

lemma primary_not_sd:
  "\<not> str_includes (toLowerCase ''primary'') ''sd''
   \<and> \<not> str_includes (toLowerCase ''primary'') ''external''"
  by code_simp

lemma sd_not_primary:
  "str_includes (toLowerCase st) ''sd'' \<or> str_includes (toLowerCase st) ''external'' \<Longrightarrow>
   st \<noteq> ''primary''"
  using primary_not_sd by blast

section \<open>Claims about the path translator\<close>

text \<open>
  The root has no parent, and under a content URI the parent of \<open>root/name\<close> is the
  root.
\<close>

lemma getParentPath_root: "getParentPath rootPath rootPath = None"
  by (simp add: getParentPath_def)

lemma split_on_child:
  "c \<notin> set nm \<Longrightarrow> split_on c (x @ c # nm) = split_on c x @ [nm]"
proof (induction x)
  case Nil
  then show ?case by (simp add: split_on_none)
next
  case (Cons a x)
  obtain p ps where sp: "split_on c x = p # ps"
    using split_on_ne [of c x] by (cases "split_on c x") auto
  with Cons show ?case by simp
qed

lemma getParentPath_of_saf_child:
  assumes "startsWith rootPath ''content://''" and "CHR ''/'' \<notin> set nm"
  shows "getParentPath (rootPath @ ''/'' @ nm) rootPath = Some rootPath"
proof -
  have d: "rootPath @ ''/'' @ nm \<noteq> rootPath" by simp
  have c: "startsWith (rootPath @ ''/'' @ nm) ''content://''"
    using assms(1) by (simp add: startsWith_def)
  have b: "butlast (split_on CHR ''/'' (rootPath @ ''/'' @ nm)) = split_on CHR ''/'' rootPath"
    using split_on_child [OF assms(2), of rootPath] by simp
  have j: "join_with ''/'' (split_on CHR ''/'' rootPath) = rootPath" by (rule join_split)
  show ?thesis
    unfolding getParentPath_def Let_def b j
    using d c by simp
qed

text \<open>
  A plain path that ends in the separator is its own \<open>parent\<close>: \<open>split('/')\<close> ends in
  an empty segment, \<open>slice(0, -1)\<close> drops just that, and the separator is appended
  again.
\<close>

lemma split_on_snoc: "split_on c (x @ [c]) = split_on c x @ [[]]"
proof (induction x)
  case Nil
  show ?case by simp
next
  case (Cons a x)
  obtain p ps where sp: "split_on c x = p # ps"
    using split_on_ne [of c x] by (cases "split_on c x") auto
  with Cons show ?case by simp
qed

lemma butlast_split_on_snoc: "butlast (split_on c (x @ [c])) = split_on c x"
  by (simp add: split_on_snoc)

lemma getParentPath_of_trailing_slash:
  assumes "\<not> startsWith (x @ ''/'') ''content://''" and "x @ ''/'' \<noteq> rootPath"
    and "length rootPath \<le> length x + 1"
  shows "getParentPath (x @ ''/'') rootPath = Some (x @ ''/'')"
proof -
  have b: "butlast (split_on CHR ''/'' (x @ ''/'')) = split_on CHR ''/'' x"
    by (rule butlast_split_on_snoc)
  have l: "length (split_on CHR ''/'' (x @ ''/'')) > 1"
    using split_on_ne [of "CHR ''/''" x] by (cases "split_on CHR ''/'' x") (auto simp: split_on_snoc)
  have j: "join_with ''/'' (split_on CHR ''/'' x) = x" by (rule join_split)
  show ?thesis
    unfolding getParentPath_def Let_def b j
    using assms l by simp
qed

text \<open>
  Claim C3, at the plain-path backend. The folder locators that \<open>processRegularFiles\<close>
  builds are \<open>currentDir + name + '/'\<close>: the listing of the root \<open>file:///data/Notes/\<close>
  names the folders \<open>file:///data/Notes/Alpha/\<close> and \<open>file:///data/Notes/zeta/\<close>, one
  level below the root. The claim says the parent of such a path is the root, the last
  non-empty segment being dropped. \<open>getParentPath\<close> returns the path itself, and so
  does the \<open>parentPath\<close> of the listing of that folder.
\<close>

theorem getParentPath_trailing_slash_returns_self:
  "map path (folders (projr (fst (getDirectoryContents caseless_compare app_service demo_world
       None (Never :: (string, string option) pending)))))
     = [''file:///data/Notes/Alpha/'', ''file:///data/Notes/zeta/'']
   \<and> getNotesDirectory app_service = ''file:///data/Notes/''
   \<and> getParentPath ''file:///data/Notes/zeta/'' ''file:///data/Notes/''
     = Some ''file:///data/Notes/zeta/''
   \<and> getParentPath ''file:///data/Notes/zeta/'' ''file:///data/Notes/''
     \<noteq> Some ''file:///data/Notes/''
   \<and> parentPath (projr (fst (getDirectoryContents caseless_compare app_service demo_world
       (Some ''file:///data/Notes/zeta/'') (Never :: (string, string option) pending))))
     = Some ''file:///data/Notes/zeta/''"
  by code_simp

text \<open>
  Claim C7: \<open>parseSafUriToReadablePath\<close>, for every decoder \<open>dec\<close> standing for
  \<open>decodeURIComponent\<close> and every input \<open>u\<close>.
  \<^item> An input that does not start with \<open>content://\<close> is returned unmodified.
  \<^item> A content URI without a tree segment yields \<open>Custom Folder\<close>.
  \<^item> Otherwise the tree segment \<open>raw\<close> is decoded; a decoding failure yields
    \<open>Custom Folder\<close>.
  \<^item> A decoded segment \<open>primary:rel\<close> yields \<open>rel\<close>, or \<open>Internal Storage\<close> when
    \<open>rel\<close> is empty.
  \<^item> A decoded segment \<open>st:rel\<close>, split at its first colon, whose storage name contains
    \<open>sd\<close> or \<open>external\<close> (in any letter case) yields \<open>SD Card/rel\<close> (\<open>SD Card\<close> when
    \<open>rel\<close> is empty); with any other storage name it yields \<open>st/rel\<close> (\<open>st\<close> when
    \<open>rel\<close> is empty).
  \<^item> A decoded segment without a colon is returned as it is, or \<open>Custom Folder\<close> when
    it is empty.
  \<^item> The handle \<open>content://auth/tree/primary:Documents\<close> yields \<open>Documents\<close> as soon as
    the decoder leaves \<open>primary:Documents\<close>, which has no escape, unchanged.
\<close>

theorem parseSafUriToReadablePath_cases:
  "(\<not> startsWith u ''content://'' \<longrightarrow> parseSafUriToReadablePath dec u = u)
   \<and> (startsWith u ''content://'' \<and> treeMatch u = None \<longrightarrow>
        parseSafUriToReadablePath dec u = ''Custom Folder'')
   \<and> (startsWith u ''content://'' \<and> treeMatch u = Some raw \<longrightarrow>
        (dec raw = None \<longrightarrow> parseSafUriToReadablePath dec u = ''Custom Folder'')
      \<and> (dec raw = Some (''primary:'' @ rel) \<longrightarrow>
           parseSafUriToReadablePath dec u = (if rel = [] then ''Internal Storage'' else rel))
      \<and> (dec raw = Some (st @ '':'' @ rel) \<and> CHR '':'' \<notin> set st
           \<and> (str_includes (toLowerCase st) ''sd''
                \<or> str_includes (toLowerCase st) ''external'') \<longrightarrow>
           parseSafUriToReadablePath dec u
             = (if rel = [] then ''SD Card'' else ''SD Card/'' @ rel))
      \<and> (dec raw = Some (st @ '':'' @ rel) \<and> CHR '':'' \<notin> set st \<and> st \<noteq> ''primary''
           \<and> \<not> str_includes (toLowerCase st) ''sd''
           \<and> \<not> str_includes (toLowerCase st) ''external'' \<longrightarrow>
           parseSafUriToReadablePath dec u = (if rel = [] then st else st @ ''/'' @ rel))
      \<and> (dec raw = Some p \<and> CHR '':'' \<notin> set p \<longrightarrow>
           parseSafUriToReadablePath dec u = (if p = [] then ''Custom Folder'' else p)))
   \<and> (dec ''primary:Documents'' = Some ''primary:Documents'' \<longrightarrow>
        parseSafUriToReadablePath dec ''content://auth/tree/primary:Documents''
          = ''Documents'')"
proof (intro conjI impI)
  show "parseSafUriToReadablePath dec u = u" if "\<not> startsWith u ''content://''"
    using that by (rule parse_not_content)
  show "parseSafUriToReadablePath dec u = ''Custom Folder''"
    if "startsWith u ''content://'' \<and> treeMatch u = None"
    using that by (simp add: parse_no_tree)
  show "parseSafUriToReadablePath dec u = ''Custom Folder''"
    if "startsWith u ''content://'' \<and> treeMatch u = Some raw" "dec raw = None"
    using that by (simp add: parse_decode_error)
  show "parseSafUriToReadablePath dec u = (if rel = [] then ''Internal Storage'' else rel)"
    if "startsWith u ''content://'' \<and> treeMatch u = Some raw"
      "dec raw = Some (''primary:'' @ rel)"
    using that parse_primary [of u raw dec rel] by simp
  show "parseSafUriToReadablePath dec u = (if rel = [] then ''SD Card'' else ''SD Card/'' @ rel)"
    if h: "startsWith u ''content://'' \<and> treeMatch u = Some raw"
      "dec raw = Some (st @ '':'' @ rel) \<and> CHR '':'' \<notin> set st
           \<and> (str_includes (toLowerCase st) ''sd''
                \<or> str_includes (toLowerCase st) ''external'')"
  proof -
    from h(2) have "st \<noteq> ''primary''" using sd_not_primary [of st] by blast
    with h show ?thesis using parse_colon [of u raw dec st rel] by simp
  qed
  show "parseSafUriToReadablePath dec u = (if rel = [] then st else st @ ''/'' @ rel)"
    if "startsWith u ''content://'' \<and> treeMatch u = Some raw"
      "dec raw = Some (st @ '':'' @ rel) \<and> CHR '':'' \<notin> set st \<and> st \<noteq> ''primary''
           \<and> \<not> str_includes (toLowerCase st) ''sd''
           \<and> \<not> str_includes (toLowerCase st) ''external''"
    using that parse_colon [of u raw dec st rel] by simp
  show "parseSafUriToReadablePath dec u = (if p = [] then ''Custom Folder'' else p)"
    if "startsWith u ''content://'' \<and> treeMatch u = Some raw"
      "dec raw = Some p \<and> CHR '':'' \<notin> set p"
    using that parse_no_colon [of u raw dec p] by simp
  show "parseSafUriToReadablePath dec ''content://auth/tree/primary:Documents'' = ''Documents''"
    if "dec ''primary:Documents'' = Some ''primary:Documents''"
    using that by (simp add: parseSafUriToReadablePath_def startsWith_def or_else_def)
qed

theorem parseSafUriToReadablePath_cases_witness:
  "parseSafUriToReadablePath percentDecode ''/data/Notes/'' = ''/data/Notes/''
   \<and> parseSafUriToReadablePath percentDecode ''content://auth/root'' = ''Custom Folder''
   \<and> parseSafUriToReadablePath percentDecode ''content://x/tree/%zz'' = ''Custom Folder''
   \<and> parseSafUriToReadablePath percentDecode ''content://x/tree/primary%3A'' = ''Internal Storage''
   \<and> parseSafUriToReadablePath percentDecode ''content://x/tree/1A2B-SD%3ANotes'' = ''SD Card/Notes''
   \<and> parseSafUriToReadablePath percentDecode ''content://x/tree/usb%3ADocs'' = ''usb/Docs''
   \<and> parseSafUriToReadablePath percentDecode ''content://x/tree/abc'' = ''abc''
   \<and> parseSafUriToReadablePath percentDecode ''content://auth/tree/primary:Documents'' = ''Documents''"
proof (intro conjI)
  have "\<not> startsWith ''/data/Notes/'' ''content://''" by (simp add: startsWith_def)
  then show "parseSafUriToReadablePath percentDecode ''/data/Notes/'' = ''/data/Notes/''"
    using parseSafUriToReadablePath_cases [of "''/data/Notes/''" percentDecode "[]" "[]" "[]" "[]"]
    by blast
  have "startsWith ''content://auth/root'' ''content://'' \<and> treeMatch ''content://auth/root'' = None"
    by (simp add: startsWith_def)
  then show "parseSafUriToReadablePath percentDecode ''content://auth/root'' = ''Custom Folder''"
    using parseSafUriToReadablePath_cases [of "''content://auth/root''" percentDecode "[]" "[]" "[]" "[]"]
    by blast
  have "startsWith ''content://x/tree/%zz'' ''content://'' \<and> treeMatch ''content://x/tree/%zz'' = Some ''%zz''"
    by (simp add: startsWith_def)
  moreover have "percentDecode ''%zz'' = None" by code_simp
  ultimately show "parseSafUriToReadablePath percentDecode ''content://x/tree/%zz'' = ''Custom Folder''"
    using parseSafUriToReadablePath_cases [of "''content://x/tree/%zz''" percentDecode "''%zz''" "[]" "[]" "[]"]
    by blast
  have "startsWith ''content://x/tree/primary%3A'' ''content://''
      \<and> treeMatch ''content://x/tree/primary%3A'' = Some ''primary%3A''"
    by (simp add: startsWith_def)
  moreover have "percentDecode ''primary%3A'' = Some (''primary:'' @ [])" by code_simp
  ultimately show "parseSafUriToReadablePath percentDecode ''content://x/tree/primary%3A'' = ''Internal Storage''"
    using parseSafUriToReadablePath_cases [of "''content://x/tree/primary%3A''" percentDecode "''primary%3A''" "[]" "[]" "[]"]
    by simp
  have "startsWith ''content://x/tree/1A2B-SD%3ANotes'' ''content://''
      \<and> treeMatch ''content://x/tree/1A2B-SD%3ANotes'' = Some ''1A2B-SD%3ANotes''"
    by (simp add: startsWith_def)
  moreover have "percentDecode ''1A2B-SD%3ANotes'' = Some (''1A2B-SD'' @ '':'' @ ''Notes'')" by code_simp
  moreover have "CHR '':'' \<notin> set ''1A2B-SD''" by simp
  moreover have "str_includes (toLowerCase ''1A2B-SD'') ''sd''" by code_simp
  ultimately show "parseSafUriToReadablePath percentDecode ''content://x/tree/1A2B-SD%3ANotes'' = ''SD Card/Notes''"
    using parseSafUriToReadablePath_cases [of "''content://x/tree/1A2B-SD%3ANotes''" percentDecode "''1A2B-SD%3ANotes''" "''Notes''" "''1A2B-SD''" "[]"]
    by simp
  have "startsWith ''content://x/tree/usb%3ADocs'' ''content://''
      \<and> treeMatch ''content://x/tree/usb%3ADocs'' = Some ''usb%3ADocs''"
    by (simp add: startsWith_def)
  moreover have "percentDecode ''usb%3ADocs'' = Some (''usb'' @ '':'' @ ''Docs'')" by code_simp
  moreover have "CHR '':'' \<notin> set ''usb'' \<and> ''usb'' \<noteq> ''primary''" by simp
  moreover have "\<not> str_includes (toLowerCase ''usb'') ''sd''
      \<and> \<not> str_includes (toLowerCase ''usb'') ''external''" by code_simp
  ultimately show "parseSafUriToReadablePath percentDecode ''content://x/tree/usb%3ADocs'' = ''usb/Docs''"
    using parseSafUriToReadablePath_cases [of "''content://x/tree/usb%3ADocs''" percentDecode "''usb%3ADocs''" "''Docs''" "''usb''" "[]"]
    by simp
  have "startsWith ''content://x/tree/abc'' ''content://''
      \<and> treeMatch ''content://x/tree/abc'' = Some ''abc''"
    by (simp add: startsWith_def)
  moreover have "percentDecode ''abc'' = Some ''abc'' \<and> CHR '':'' \<notin> set ''abc''" by simp
  ultimately show "parseSafUriToReadablePath percentDecode ''content://x/tree/abc'' = ''abc''"
    using parseSafUriToReadablePath_cases [of "''content://x/tree/abc''" percentDecode "''abc''" "[]" "[]" "''abc''"]
    by simp
  have "percentDecode ''primary:Documents'' = Some ''primary:Documents''" by simp
  then show "parseSafUriToReadablePath percentDecode ''content://auth/tree/primary:Documents'' = ''Documents''"
    using parseSafUriToReadablePath_cases [of "[]" percentDecode "[]" "[]" "[]" "[]"]
    by blast
qed

section \<open>Claims about the preference store\<close>

text \<open>
  Claim C9: a preference-store call whose underlying operation never settles fails with
  the wrapper's timeout error exactly when the configured window has elapsed, for
  \<open>getItem\<close>, \<open>setItem\<close> and \<open>removeItem\<close> alike: after the \<open>n\<close> ms the caller passes,
  and after 5000 ms when the caller passes none. The call is a race: an operation that
  settles later than the window loses to the timer in the same way, whereas an
  operation that settles within the window (at the latest at the very moment the timer
  is due) decides the call, a backend rejection being passed through as it is; and a
  backend rejection is not the timeout error.
\<close>

theorem preference_store_timeout:
  "getItem key None (Never :: ('e, string option) pending)
     = (5000, Inl (Timeout (''AsyncStorage.getItem timeout for key: '' @ key)))
   \<and> getItem key (Some n) (Never :: ('e, string option) pending)
     = (n, Inl (Timeout (''AsyncStorage.getItem timeout for key: '' @ key)))
   \<and> setItem key v None (Never :: ('e, unit) pending)
     = (5000, Inl (Timeout (''AsyncStorage.setItem timeout for key: '' @ key)))
   \<and> setItem key v (Some n) (Never :: ('e, unit) pending)
     = (n, Inl (Timeout (''AsyncStorage.setItem timeout for key: '' @ key)))
   \<and> removeItem key None (Never :: ('e, unit) pending)
     = (5000, Inl (Timeout (''AsyncStorage.removeItem timeout for key: '' @ key)))
   \<and> removeItem key (Some n) (Never :: ('e, unit) pending)
     = (n, Inl (Timeout (''AsyncStorage.removeItem timeout for key: '' @ key)))
   \<and> (n < t \<longrightarrow>
        getItem key (Some n) (Settles t r1 :: ('e, string option) pending)
          = (n, Inl (Timeout (''AsyncStorage.getItem timeout for key: '' @ key)))
      \<and> setItem key v (Some n) (Settles t r2 :: ('e, unit) pending)
          = (n, Inl (Timeout (''AsyncStorage.setItem timeout for key: '' @ key)))
      \<and> removeItem key (Some n) (Settles t r2 :: ('e, unit) pending)
          = (n, Inl (Timeout (''AsyncStorage.removeItem timeout for key: '' @ key))))
   \<and> (5000 < t \<longrightarrow>
        getItem key None (Settles t r1 :: ('e, string option) pending)
          = (5000, Inl (Timeout (''AsyncStorage.getItem timeout for key: '' @ key)))
      \<and> setItem key v None (Settles t r2 :: ('e, unit) pending)
          = (5000, Inl (Timeout (''AsyncStorage.setItem timeout for key: '' @ key)))
      \<and> removeItem key None (Settles t r2 :: ('e, unit) pending)
          = (5000, Inl (Timeout (''AsyncStorage.removeItem timeout for key: '' @ key))))
   \<and> (t \<le> n \<longrightarrow>
        getItem key (Some n) (Settles t (Inl e) :: ('e, string option) pending)
          = (t, Inl (Backend e))
      \<and> getItem key (Some n) (Settles t (Inr x) :: ('e, string option) pending) = (t, Inr x)
      \<and> setItem key v (Some n) (Settles t (Inl e) :: ('e, unit) pending) = (t, Inl (Backend e))
      \<and> removeItem key (Some n) (Settles t (Inl e) :: ('e, unit) pending)
          = (t, Inl (Backend e)))
   \<and> (t \<le> 5000 \<longrightarrow>
        getItem key None (Settles t (Inl e) :: ('e, string option) pending)
          = (t, Inl (Backend e))
      \<and> getItem key None (Settles t (Inr x) :: ('e, string option) pending) = (t, Inr x)
      \<and> setItem key v None (Settles t (Inl e) :: ('e, unit) pending) = (t, Inl (Backend e))
      \<and> removeItem key None (Settles t (Inl e) :: ('e, unit) pending)
          = (t, Inl (Backend e)))
   \<and> (Backend e :: 'e storage_error) \<noteq> Timeout m"
  by (simp add: getItem_def setItem_def removeItem_def race_timeout_def timeout_window_def)

theorem preference_store_timeout_witness:
  "getItem ''user_preferences'' (Some 100)
       (Settles 101 (Inr None) :: (string, string option) pending)
     = (100, Inl (Timeout ''AsyncStorage.getItem timeout for key: user_preferences''))
   \<and> getItem ''user_preferences'' None
       (Settles 5001 (Inr None) :: (string, string option) pending)
     = (5000, Inl (Timeout ''AsyncStorage.getItem timeout for key: user_preferences''))
   \<and> getItem ''user_preferences'' (Some 100)
       (Settles 12 (Inl ''disk'') :: (string, string option) pending)
     = (12, Inl (Backend ''disk''))
   \<and> getItem ''user_preferences'' None
       (Settles 5000 (Inr (Some ''{}'')) :: (string, string option) pending)
     = (5000, Inr (Some ''{}''))"
proof -
  have late: "(100::nat) < 101" "(5000::nat) < 5001"
    and early: "(12::nat) \<le> 100" "(5000::nat) \<le> 5000"
    by simp_all
  show ?thesis
    using late early
      preference_store_timeout [of "''user_preferences''" 100 "[]" 101 "Inr None" "Inr ()"
        "''disk''" "Some ''{}''" "[]"]
      preference_store_timeout [of "''user_preferences''" 100 "[]" 5001 "Inr None" "Inr ()"
        "''disk''" "Some ''{}''" "[]"]
      preference_store_timeout [of "''user_preferences''" 100 "[]" 12 "Inr None" "Inr ()"
        "''disk''" "Some ''{}''" "[]"]
      preference_store_timeout [of "''user_preferences''" 100 "[]" 5000 "Inr None" "Inr ()"
        "''disk''" "Some ''{}''" "[]"]
    by simp
qed

text \<open>
  Claim C8: when the stored item is read in time, is not empty and parses to
  \<open>payload\<close>, \<open>loadUserPreferences\<close> installs the payload merged over the defaults
  \<open>{ showTimestamps: true, welcomeCompleted: false }\<close>: a payload without
  \<open>welcomeCompleted\<close> gives \<open>welcomeCompleted = false\<close>, and each field the payload has
  keeps its stored value.
\<close>

theorem loadUserPreferences_merges_over_defaults:
  assumes "operation = Settles t (Inr (Some data))" and "t < 5000" and "data \<noteq> []"
    and "parse data = Some payload"
  shows "userPreferences (loadUserPreferences parse s operation)
           = \<lparr>showTimestamps = (case showTimestamps_opt payload of None \<Rightarrow> True | Some b \<Rightarrow> b),
              welcomeCompleted = (case welcomeCompleted_opt payload of None \<Rightarrow> False | Some b \<Rightarrow> b)\<rparr>
         \<and> (welcomeCompleted_opt payload = None \<longrightarrow>
               welcomeCompleted (userPreferences (loadUserPreferences parse s operation)) = False)
         \<and> (\<forall>b. showTimestamps_opt payload = Some b \<longrightarrow>
               showTimestamps (userPreferences (loadUserPreferences parse s operation)) = b)
         \<and> (\<forall>b. welcomeCompleted_opt payload = Some b \<longrightarrow>
               welcomeCompleted (userPreferences (loadUserPreferences parse s operation)) = b)"
  using assms
  by (simp add: loadUserPreferences_def getItem_def race_timeout_def timeout_window_def
        truthy_def spread_def DEFAULT_PREFERENCES_def split: option.split)

theorem loadUserPreferences_merges_over_defaults_witness:
  \<open>userPreferences
     (loadUserPreferences
        (\<lambda>d. if d = ''{"showTimestamps":false}''
             then Some \<lparr>showTimestamps_opt = Some False, welcomeCompleted_opt = None\<rparr>
             else None)
        (new_service Android ''file:///data/'')
        (Settles 3 (Inr (Some ''{"showTimestamps":false}'')) :: (string, string option) pending))
   = \<lparr>showTimestamps = False, welcomeCompleted = False\<rparr>\<close>
  using loadUserPreferences_merges_over_defaults
    [of \<open>Settles 3 (Inr (Some ''{"showTimestamps":false}'')) :: (string, string option) pending\<close>
        3 \<open>''{"showTimestamps":false}''\<close>
        \<open>\<lambda>d. if d = ''{"showTimestamps":false}''
             then Some \<lparr>showTimestamps_opt = Some False, welcomeCompleted_opt = None\<rparr>
             else None\<close>
        \<open>\<lparr>showTimestamps_opt = Some False, welcomeCompleted_opt = None\<rparr>\<close>
        \<open>new_service Android ''file:///data/''\<close>]
  by simp

text \<open>
  Claim C10: whatever the underlying write does (resolve, reject, or never settle),
  \<open>saveUserPreferences\<close> resolves, and the preferences in memory are the old ones with
  the given fields written over them; so after \<open>setShowTimestamps(b)\<close> both
  \<open>getShowTimestamps\<close> and \<open>getUserPreferences\<close> give \<open>b\<close>, and likewise for
  \<open>setWelcomeCompleted\<close>.
\<close>

theorem saveUserPreferences_never_rejects:
  "fst (saveUserPreferences s prefs operation) = Inr ()
   \<and> getUserPreferences (snd (saveUserPreferences s prefs operation))
       = spread (userPreferences s) prefs
   \<and> fst (setShowTimestamps s b operation) = Inr ()
   \<and> getShowTimestamps (snd (setShowTimestamps s b operation)) = b
   \<and> showTimestamps (getUserPreferences (snd (setShowTimestamps s b operation))) = b
   \<and> welcomeCompleted (getUserPreferences (snd (setShowTimestamps s b operation)))
       = welcomeCompleted (userPreferences s)
   \<and> fst (setWelcomeCompleted s b operation) = Inr ()
   \<and> getWelcomeCompleted (snd (setWelcomeCompleted s b operation)) = b"
  by (simp add: saveUserPreferences_def setShowTimestamps_def setWelcomeCompleted_def
        getUserPreferences_def getShowTimestamps_def getWelcomeCompleted_def spread_def Let_def
        split: sum.split)


section \<open>Facts about sorting and listings\<close>

lemma set_insert_by: "set (insert_by cmp x ys) = insert x (set ys)"
  by (induction ys) auto

lemma sorted_insert_by:
  assumes "consistent cmp" and "sorted_wrt (\<lambda>a b. cmp a b \<le> 0) ys"
  shows "sorted_wrt (\<lambda>a b. cmp a b \<le> 0) (insert_by cmp x ys)"
  using assms(2)
proof (induction ys)
  case Nil
  then show ?case by simp
next
  case (Cons y ys)
  from assms(1) have total: "\<And>a b. cmp a b \<le> 0 \<or> cmp b a \<le> 0"
    and trans: "\<And>a b c. cmp a b \<le> 0 \<Longrightarrow> cmp b c \<le> 0 \<Longrightarrow> cmp a c \<le> 0"
    unfolding consistent_def by blast+
  show ?case
  proof (cases "cmp x y \<le> 0")
    case True
    have "cmp x z \<le> 0" if "z \<in> set ys" for z
      using Cons.prems that True trans [of x y z] by simp
    with True Cons.prems show ?thesis by simp
  next
    case False
    then have "cmp y x \<le> 0" using total [of x y] by simp
    with False Cons show ?thesis by (simp add: set_insert_by)
  qed
qed

lemma sorted_js_sort:
  "consistent cmp \<Longrightarrow> sorted_wrt (\<lambda>a b. cmp a b \<le> 0) (js_sort cmp xs)"
  unfolding js_sort_def by (induction xs) (simp_all add: sorted_insert_by)

lemma consistent_newest_first: "consistent newest_first"
  unfolding consistent_def newest_first_def by auto

lemma consistent_by_name:
  "consistent lc \<Longrightarrow> consistent (\<lambda>a b. lc (name a) (name b))"
  unfolding consistent_def by blast

lemma sorted_notes_js_sort:
  "sorted_wrt (\<lambda>a b. preview_updatedAt b \<le> preview_updatedAt a) (js_sort newest_first xs)"
  using sorted_js_sort [OF consistent_newest_first, of xs]
  by (simp add: newest_first_def)

lemma sorted_build:
  "consistent lc \<Longrightarrow> listing_sorted lc (buildDirectoryContents lc fs ns p r)"
  unfolding listing_sorted_def buildDirectoryContents_def
  using sorted_js_sort [OF consistent_by_name, of lc fs] sorted_notes_js_sort [of ns]
  by simp

lemma sorted_empty: "listing_sorted lc (buildEmptyDirectoryContents p r)"
  by (simp add: listing_sorted_def buildEmptyDirectoryContents_def)

lemma sorted_saf:
  "consistent lc \<Longrightarrow> listing_sorted lc (getSAFDirectoryContents lc w d r)"
  unfolding getSAFDirectoryContents_def
  by (simp add: sorted_build sorted_empty Let_def split: sum.split)

lemma sorted_fs:
  "consistent lc \<Longrightarrow> listing_sorted lc (getFileSystemDirectoryContents lc w d r)"
  unfolding getFileSystemDirectoryContents_def
  by (simp add: sorted_build sorted_empty Let_def split: sum.split)

lemma sorted_web: "listing_sorted lc (getWebDirectoryContents w d r)"
  unfolding getWebDirectoryContents_def listing_sorted_def
  by (simp add: sorted_notes_js_sort Let_def)

lemma listing_sorted_getDirectoryContents:
  assumes "consistent lc" and "fst (getDirectoryContents lc s w dir operation) = Inr dc"
  shows "listing_sorted lc dc"
  using assms
  unfolding getDirectoryContents_def
  by (auto simp: Let_def sorted_saf sorted_fs sorted_web split: sum.splits if_splits)

lemma consistent_caseless_compare: "consistent caseless_compare"
proof -
  have le: "caseless_compare a b \<le> 0 \<longleftrightarrow>
      \<not> ord_class.lexordp (codes (toLowerCase b)) (codes (toLowerCase a))" for a b
    using lexordp_antisym [of "codes (toLowerCase a)" "codes (toLowerCase b)"]
    by (auto simp: caseless_compare_def)
  show ?thesis
    unfolding consistent_def le
    using lexordp_antisym lexordp_linear lexordp_trans by metis
qed

section \<open>Claims about listings\<close>

text \<open>
  Claim C5: whenever \<open>getDirectoryContents\<close> returns a listing, on any backend and for
  any directory, its folders are in ascending order of their names under the
  collation \<open>localeCompare\<close>, and its notes are in descending order of \<open>updatedAt\<close>,
  most recently updated first. The collation is the platform's; the service needs it to
  be a consistent comparator. When it orders names by their lower-cased form (under
  whatever order \<open>le\<close> on those), the folders are sorted by case-insensitive name.
\<close>

theorem getDirectoryContents_sorted:
  assumes "consistent localeCompare"
    and "fst (getDirectoryContents localeCompare s w directoryPath operation) = Inr dc"
  shows "sorted_wrt (\<lambda>a b. localeCompare (name a) (name b) \<le> 0) (folders dc)
       \<and> sorted_wrt (\<lambda>a b. preview_updatedAt a \<ge> preview_updatedAt b) (note_items dc)
       \<and> ((\<forall>a b. localeCompare a b \<le> 0 \<longrightarrow> le (toLowerCase a) (toLowerCase b)) \<longrightarrow>
            sorted_wrt (\<lambda>a b. le (toLowerCase (name a)) (toLowerCase (name b))) (folders dc))"
proof -
  have ls: "listing_sorted localeCompare dc"
    using assms by (rule listing_sorted_getDirectoryContents)
  then have f: "sorted_wrt (\<lambda>a b. localeCompare (name a) (name b) \<le> 0) (folders dc)"
    and n: "sorted_wrt (\<lambda>a b. preview_updatedAt b \<le> preview_updatedAt a) (note_items dc)"
    unfolding listing_sorted_def by simp_all
  have "sorted_wrt (\<lambda>a b. le (toLowerCase (name a)) (toLowerCase (name b))) (folders dc)"
    if "\<forall>a b. localeCompare a b \<le> 0 \<longrightarrow> le (toLowerCase a) (toLowerCase b)"
  proof (rule sorted_wrt_mono_rel [OF _ f])
    fix a b
    assume "localeCompare (name a) (name b) \<le> 0"
    with that show "le (toLowerCase (name a)) (toLowerCase (name b))" by blast
  qed
  with f n show ?thesis by simp
qed

theorem getDirectoryContents_sorted_witness:
  "sorted_wrt (\<lambda>a b. caseless_compare (name a) (name b) \<le> 0)
     [\<lparr>name = ''Alpha'', path = ''file:///data/Notes/Alpha/'',
         folder_createdAt = 3, folder_updatedAt = 3\<rparr>,
      \<lparr>name = ''zeta'', path = ''file:///data/Notes/zeta/'',
         folder_createdAt = 2, folder_updatedAt = 2\<rparr>]
   \<and> sorted_wrt (\<lambda>a b. preview_updatedAt a \<ge> preview_updatedAt b)
     [\<lparr>preview_filename = ''y'', preview = ''Y'', preview_createdAt = 9,
         preview_updatedAt = 9, preview_filePath = ''file:///data/Notes/y.md''\<rparr>,
      \<lparr>preview_filename = ''x'', preview = ''X'', preview_createdAt = 4,
         preview_updatedAt = 4, preview_filePath = ''file:///data/Notes/x.md''\<rparr>]
   \<and> sorted_wrt (\<lambda>a b. bytes_le (toLowerCase (name a)) (toLowerCase (name b)))
     [\<lparr>name = ''Alpha'', path = ''file:///data/Notes/Alpha/'',
         folder_createdAt = 3, folder_updatedAt = 3\<rparr>,
      \<lparr>name = ''zeta'', path = ''file:///data/Notes/zeta/'',
         folder_createdAt = 2, folder_updatedAt = 2\<rparr>]"
proof -
  have ev: "fst (getDirectoryContents caseless_compare app_service demo_world None
                  (Never :: (unit, string option) pending))
      = Inr \<lparr>folders =
               [\<lparr>name = ''Alpha'', path = ''file:///data/Notes/Alpha/'',
                   folder_createdAt = 3, folder_updatedAt = 3\<rparr>,
                \<lparr>name = ''zeta'', path = ''file:///data/Notes/zeta/'',
                   folder_createdAt = 2, folder_updatedAt = 2\<rparr>],
             note_items =
               [\<lparr>preview_filename = ''y'', preview = ''Y'', preview_createdAt = 9,
                   preview_updatedAt = 9, preview_filePath = ''file:///data/Notes/y.md''\<rparr>,
                \<lparr>preview_filename = ''x'', preview = ''X'', preview_createdAt = 4,
                   preview_updatedAt = 4, preview_filePath = ''file:///data/Notes/x.md''\<rparr>],
             currentPath = ''file:///data/Notes/'', parentPath = None\<rparr>"
    by code_simp
  have ci: "\<forall>a b. caseless_compare a b \<le> 0 \<longrightarrow> bytes_le (toLowerCase a) (toLowerCase b)"
    using lexordp_antisym by (auto simp: caseless_compare_def bytes_le_def)
  show ?thesis
    using getDirectoryContents_sorted [OF consistent_caseless_compare ev, of bytes_le] ci
    by simp
qed


section \<open>Facts about the cache\<close>

lemma kept_refl: "kept s s"
  by (simp add: kept_def)

lemma kept_clearCache: "kept s (clearCache s)"
  by (simp add: kept_def clearCache_def cache_cleared_def)

lemma cache_cleared_clearCache: "cache_cleared (clearCache s)"
  by (simp add: clearCache_def cache_cleared_def)

lemma kept_setCustomDirectory: "kept s (setCustomDirectory s d operation)"
  by (simp add: kept_def setCustomDirectory_def clearCache_def cache_cleared_def Let_def
        split: sum.split)

lemma kept_loadDirectoryPreference: "kept s (loadDirectoryPreference s operation)"
  by (simp add: kept_def loadDirectoryPreference_def cache_cleared_def
        split: option.split sum.split)

lemma kept_loadUserPreferences: "kept s (loadUserPreferences parse s operation)"
  by (simp add: kept_def loadUserPreferences_def cache_cleared_def
        split: option.split sum.split)

lemma kept_saveUserPreferences: "kept s (snd (saveUserPreferences s prefs operation))"
  by (simp add: kept_def saveUserPreferences_def cache_cleared_def Let_def
        split: sum.split)

lemma kept_getNote: "kept s (snd (getNote s w fname folderPath))"
  by (simp add: kept_def getNote_def cache_cleared_def Let_def split: sum.split)

lemma kept_deleteNote: "kept s (fst (snd (deleteNote s w ident folderPath)))"
  by (simp add: kept_def deleteNote_def clearCache_def cache_cleared_def Let_def
        split: sum.split)

lemma kept_trans: "kept s s' \<Longrightarrow> kept s' s'' \<Longrightarrow> kept s s''"
  by (auto simp: kept_def)

lemma kept_saveNote: "kept s (fst (snd (saveNote s w note oldFilename folderPath)))"
proof (cases "platform_OS s = Web")
  case True
  then show ?thesis by (simp add: saveNote_def kept_refl)
next
  case False
  have d: "kept s (fst (snd (deleteNote s w1 i folderPath)))" for w1 i
    by (rule kept_deleteNote)
  have c: "kept s (clearCache (fst (snd (deleteNote s w1 i folderPath))))" for w1 i
    using d kept_clearCache kept_trans by blast
  from False show ?thesis
    by (simp add: saveNote_def Let_def kept_refl kept_clearCache c d split: sum.split)
qed

lemma kept_getSAFNotes: "platform_OS s \<noteq> Web \<Longrightarrow> kept s (snd (getSAFNotes s w d))"
  by (simp add: kept_def getSAFNotes_def getSAFNotes_io_def Let_def split: sum.split)

lemma kept_getFileSystemNotes:
  "platform_OS s \<noteq> Web \<Longrightarrow> kept s (snd (getFileSystemNotes s w d))"
  by (simp add: kept_def getFileSystemNotes_def getFileSystemNotes_io_def Let_def
        split: sum.split)

lemma kept_getAllNotes: "kept s (fst (snd (getAllNotes s w operation)))"
proof -
  let ?s1 = "loadDirectoryPreference s operation"
  have l: "kept s ?s1" by (rule kept_loadDirectoryPreference)
  then have p: "platform_OS ?s1 = platform_OS s" by (simp add: kept_def)
  have "kept ?s1 (fst (snd (getAllNotes s w operation)))"
    unfolding getAllNotes_def
    by (simp add: Let_def kept_refl kept_getSAFNotes kept_getFileSystemNotes
          split: sum.split)
  with l show ?thesis by (rule kept_trans)
qed

lemma kept_getDirectoryContents:
  "kept s (fst (snd (getDirectoryContents lc s w directoryPath operation)))"
  unfolding getDirectoryContents_def
  by (simp add: Let_def kept_loadDirectoryPreference split: sum.split)

lemma kept_perform: "kept s (fst (perform c s w))"
  by (cases c)
    (simp_all add: kept_setCustomDirectory kept_loadDirectoryPreference
      kept_loadUserPreferences kept_saveUserPreferences kept_getNote kept_deleteNote
      kept_saveNote kept_getAllNotes kept_getDirectoryContents
      setCurrentDirectory_def resetToRootDirectory_def kept_def [of s "s\<lparr>currentDirectory := x\<rparr>" for x]
      cache_cleared_def)

text \<open>
  In every state the service can reach, the validity window is five minutes, and on
  the browser platform the cache is empty: only the two native listing functions and
  the native branch of \<open>getNote\<close> ever write to it.
\<close>

lemma reachable_invariant:
  "reachable s \<Longrightarrow>
     cacheValidityDuration s = 300000 \<and> (platform_OS s = Web \<longrightarrow> cache_cleared s)"
proof (induction rule: reachable.induct)
  case (initial os documentDirectory)
  show ?case by (simp add: new_service_def cache_cleared_def)
next
  case (step s c w)
  with kept_perform [of s c w] show ?case by (auto simp: kept_def)
qed

lemma saveNote_cleared:
  assumes "saveNote s w note oldFilename folderPath = (Inr (), s', w')"
  shows "(platform_OS s = Web \<and> s' = s) \<or> (platform_OS s \<noteq> Web \<and> cache_cleared s')"
  using assms
  by (auto simp: saveNote_def Let_def cache_cleared_clearCache split: sum.splits if_splits)

lemma deleteNote_cleared:
  assumes "deleteNote s w ident folderPath = (Inr (), s', w')"
  shows "(platform_OS s = Web \<and> s' = s) \<or> (platform_OS s \<noteq> Web \<and> cache_cleared s')"
  using assms
  by (auto simp: deleteNote_def Let_def cache_cleared_clearCache split: sum.splits if_splits)

lemma cleared_getNote:
  assumes "cache_cleared s"
  shows "fst (getNote s w f p) =
     (if platform_OS s = Web then getWebNote w f
      else case getNote_try s w f p of Inl e \<Rightarrow> None | Inr n \<Rightarrow> Some n)"
  using assms by (simp add: getNote_def cache_cleared_def Let_def split: sum.split)

lemma cleared_listing:
  assumes "cache_cleared s"
  shows "getSAFNotes (loadDirectoryPreference s operation) w d
           = getSAFNotes_io (loadDirectoryPreference s operation) w d"
    and "getFileSystemNotes (loadDirectoryPreference s operation) w d
           = getFileSystemNotes_io (loadDirectoryPreference s operation) w d"
proof -
  have "notesCache (loadDirectoryPreference s operation) = []"
    using assms
    by (simp add: loadDirectoryPreference_def cache_cleared_def split: option.split sum.split)
  then show "getSAFNotes (loadDirectoryPreference s operation) w d
           = getSAFNotes_io (loadDirectoryPreference s operation) w d"
    and "getFileSystemNotes (loadDirectoryPreference s operation) w d
           = getFileSystemNotes_io (loadDirectoryPreference s operation) w d"
    by (simp_all add: getSAFNotes_def getFileSystemNotes_def Let_def)
qed

section \<open>Facts about the file tree\<close>

lemma norm_path_md: "norm_path (x @ ''.md'') = x @ ''.md''"
  by (simp add: norm_path_def)

lemma norm_path_locator: "norm_path (note_locator s fp f) = note_locator s fp f"
  by (simp add: note_locator_def Let_def norm_path_def)

lemma locator_inj: "note_locator s fp f = note_locator s fp g \<longleftrightarrow> f = g"
  by (simp add: note_locator_def Let_def)

lemma write_result:
  assumes "write_primitive s fp w p c = Inr w'"
  shows "entries w' = AList.update (norm_path p) (File c (now w)) (entries w)"
    and "faults w' = faults w" and "now w' = now w"
    and "localStorage_notes w' = localStorage_notes w"
  using assms
  by (auto simp: write_primitive_def writeFile_def writeAsStringAsync_def
        split: if_splits option.splits node.splits)

lemma lookup_after_write:
  assumes "write_primitive s fp w p c = Inr w'"
  shows "lookup w' q = (if norm_path q = norm_path p then Some (File c (now w)) else lookup w q)"
  using write_result(1) [OF assms]
  by (simp add: lookup_def update_conv')

lemma delete_result:
  assumes "delete_primitive s fp w p = Inr w'"
  shows "lookup w' p = None" and "faults w' = faults w" and "now w' = now w"
proof -
  from assms have e: "entries w' =
      filter (\<lambda>(k, n). k \<noteq> norm_path p \<and> \<not> prefix (norm_path p @ ''/'') k) (entries w)"
    and f: "faults w' = faults w" and n: "now w' = now w"
    by (auto simp: delete_primitive_def unlink_def deleteAsync_def
          split: if_splits option.splits)
  have "norm_path p \<notin> fst ` set (entries w')"
    unfolding e by auto
  then show "lookup w' p = None"
    by (simp add: lookup_def map_of_eq_None_iff)
  show "faults w' = faults w" by (rule f)
  show "now w' = now w" by (rule n)
qed

lemma delete_missing:
  assumes "lookup w p = None"
  shows "\<exists>e. delete_primitive s fp w p = Inl e"
  using assms
  by (simp add: delete_primitive_def unlink_def deleteAsync_def)

lemma deleteNote_native:
  assumes "platform_OS s \<noteq> Web"
  shows "deleteNote s w ident fp =
     (case delete_primitive s fp w (note_locator s fp ident) of
        Inl e \<Rightarrow> (Inl e, s, w)
      | Inr w1 \<Rightarrow> (Inr (), clearCache s, w1))"
  using assms
  by (simp add: deleteNote_def delete_primitive_def note_locator_def Let_def)

lemma clearCache_dirs [simp]:
  "getNotesDirectory (clearCache s) = getNotesDirectory s"
  "targetDirOf (clearCache s) fp = targetDirOf s fp"
  "note_locator (clearCache s) fp f = note_locator s fp f"
  "platform_OS (clearCache s) = platform_OS s"
  by (simp_all add: getNotesDirectory_def targetDirOf_def note_locator_def clearCache_def)

lemma saveNote_native:
  assumes "platform_OS s \<noteq> Web"
  shows "saveNote s w note0 old fp =
     (case ensureDirectoryExists s w of
        Inl e \<Rightarrow> (Inl e, s, w)
      | Inr w1 \<Rightarrow>
         (let after_delete =
                (if truthy old \<and> the old \<noteq> filename note0
                 then snd (deleteNote s w1 (the old) fp)
                 else (s, w1));
              s2 = fst after_delete;
              w2 = snd after_delete
          in case write_primitive s fp w2 (note_locator s fp (filename note0)) (content note0) of
               Inl e \<Rightarrow> (Inl e, s2, w2)
             | Inr w3 \<Rightarrow> (Inr (), clearCache s2, w3)))"
  using assms
  by (cases "ensureDirectoryExists s w")
    (simp_all add: saveNote_def write_primitive_def note_locator_def Let_def)

lemma ensureDirectoryExists_now:
  "ensureDirectoryExists s w = Inr w1 \<Longrightarrow> now w1 = now w"
  by (auto simp: ensureDirectoryExists_def getInfoAsync_def makeDirectoryAsync_def Let_def
        split: if_splits sum.splits)

lemma saveNote_native_success:
  assumes "platform_OS s \<noteq> Web"
    and "saveNote s w note0 oldFilename folderPath = (Inr (), s', w')"
  shows "\<exists>w2. write_primitive s folderPath w2 (note_locator s folderPath (filename note0))
                (content note0) = Inr w'"
    and "cache_cleared s'" and "getNotesDirectory s' = getNotesDirectory s"
    and "platform_OS s' = platform_OS s"
proof -
  from assms obtain w1 where e: "ensureDirectoryExists s w = Inr w1"
    by (cases "ensureDirectoryExists s w") (auto simp: saveNote_native)
  define ad where "ad = (if truthy oldFilename \<and> the oldFilename \<noteq> filename note0
                 then snd (deleteNote s w1 (the oldFilename) folderPath)
                 else (s, w1))"
  have s2: "fst ad = s \<or> fst ad = clearCache s"
    using deleteNote_native [OF assms(1), of w1 "the oldFilename" folderPath]
    by (auto simp: ad_def split: sum.splits)
  from assms e have wr: "write_primitive s folderPath (snd ad)
        (note_locator s folderPath (filename note0)) (content note0) = Inr w'"
    and s': "s' = clearCache (fst ad)"
    by (auto simp: saveNote_native Let_def ad_def split: sum.splits)
  from wr show "\<exists>w2. write_primitive s folderPath w2 (note_locator s folderPath (filename note0))
                (content note0) = Inr w'" by blast
  from s' show "cache_cleared s'" by (simp add: cache_cleared_clearCache)
  from s' s2 show "getNotesDirectory s' = getNotesDirectory s" by auto
  from s' s2 show "platform_OS s' = platform_OS s" by auto
qed

text \<open>
  On the app-folder and SAF backends a note read right after a successful write has the
  written content.
\<close>

lemma native_write_then_read:
  assumes "platform_OS s \<noteq> Web"
    and "saveNote s w note0 oldFilename folderPath = (Inr (), s', w')"
    and "fst (getNote s' w' (filename note0) folderPath) = Some n"
  shows "content n = content note0"
proof -
  let ?new = "note_locator s folderPath (filename note0)"
  from saveNote_native_success [OF assms(1,2)] obtain w2
    where wr: "write_primitive s folderPath w2 ?new (content note0) = Inr w'"
      and cc: "cache_cleared s'" and d: "getNotesDirectory s' = getNotesDirectory s"
      and p: "platform_OS s' \<noteq> Web"
    using assms(1) by auto
  have t: "targetDirOf s' folderPath = targetDirOf s folderPath"
    using d by (simp add: targetDirOf_def)
  have lk: "lookup w' ?new = Some (File (content note0) (now w2))"
    using lookup_after_write [OF wr, of ?new] by simp
  from assms(3) cc p have "getNote_try s' w' (filename note0) folderPath = Inr n"
    by (simp add: cleared_getNote split: sum.splits)
  then show ?thesis
    using lk t
    by (auto simp: getNote_try_def Let_def note_locator_def readFile_def
          readAsStringAsync_def split: if_splits sum.splits)
qed

lemma getNote_try_missing:
  assumes "lookup w (note_locator s fp f) = None"
  shows "\<exists>e. getNote_try s w f fp = Inl e"
  using assms
  by (auto simp: getNote_try_def note_locator_def Let_def readFile_def readAsStringAsync_def
        split: if_splits)

section \<open>Claims about notes and the cache\<close>

text \<open>
  Claim C1: in every state the service can reach, on every backend, a \<open>saveNote\<close> or
  \<open>deleteNote\<close> that succeeds leaves both cache maps empty and the last-update time
  stamp at zero, so that the validity check fails (at any clock value from five minutes
  after the epoch on). What is read next comes from the backend: \<open>getNote\<close> returns
  what the backend holds at that moment, and the two listing functions behind
  \<open>getAllNotes\<close> take their I/O branch. (\<open>getDirectoryContents\<close> never consults the
  cache.) On the native backends \<open>clearCache\<close> runs; on the browser backend the cache
  is never filled in the first place.
\<close>

theorem mutation_clears_cache:
  assumes "reachable s"
    and "saveNote s w note oldFilename folderPath = (Inr (), s', w')
         \<or> deleteNote s w ident folderPath = (Inr (), s', w')"
  shows "notesCache s' = [] \<and> noteContentCache s' = [] \<and> lastCacheUpdate s' = 0
       \<and> (300000 \<le> now w2 \<longrightarrow> \<not> isCacheValid s' w2)
       \<and> fst (getNote s' w2 f p) =
           (if platform_OS s' = Web then getWebNote w2 f
            else case getNote_try s' w2 f p of Inl e \<Rightarrow> None | Inr n \<Rightarrow> Some n)
       \<and> getSAFNotes (loadDirectoryPreference s' operation) w2 d
           = getSAFNotes_io (loadDirectoryPreference s' operation) w2 d
       \<and> getFileSystemNotes (loadDirectoryPreference s' operation) w2 d
           = getFileSystemNotes_io (loadDirectoryPreference s' operation) w2 d"
proof -
  from assms(1) have inv: "cacheValidityDuration s = 300000"
    "platform_OS s = Web \<longrightarrow> cache_cleared s"
    using reachable_invariant by blast+
  from assms(2) have k: "kept s s'"
  proof
    assume "saveNote s w note oldFilename folderPath = (Inr (), s', w')"
    then show ?thesis using kept_saveNote [of s w "note" oldFilename folderPath] by simp
  next
    assume "deleteNote s w ident folderPath = (Inr (), s', w')"
    then show ?thesis using kept_deleteNote [of s w ident folderPath] by simp
  qed
  from assms(2) have "(platform_OS s = Web \<and> s' = s) \<or> (platform_OS s \<noteq> Web \<and> cache_cleared s')"
    using saveNote_cleared deleteNote_cleared by blast
  with inv(2) have c: "cache_cleared s'" by blast
  from k inv(1) have v: "cacheValidityDuration s' = 300000" by (simp add: kept_def)
  from c v have "300000 \<le> now w2 \<longrightarrow> \<not> isCacheValid s' w2"
    by (simp add: isCacheValid_def cache_cleared_def)
  with c cleared_getNote [OF c, of w2 f p] cleared_listing [OF c, of operation w2 d]
  show ?thesis by (simp add: cache_cleared_def)
qed

theorem mutation_clears_cache_witness:
  "notesCache (fst (perform (GetAllNotes Never) app_service demo_world)) \<noteq> []
   \<and> notesCache (fst (snd (saveNote (fst (perform (GetAllNotes Never) app_service demo_world))
          demo_world demo_note None None))) = []
   \<and> noteContentCache (fst (snd (saveNote (fst (perform (GetAllNotes Never) app_service demo_world))
          demo_world demo_note None None))) = []
   \<and> lastCacheUpdate (fst (snd (saveNote (fst (perform (GetAllNotes Never) app_service demo_world))
          demo_world demo_note None None))) = 0
   \<and> \<not> isCacheValid (fst (snd (saveNote (fst (perform (GetAllNotes Never) app_service demo_world))
          demo_world demo_note None None))) demo_world"
proof -
  let ?s = "fst (perform (GetAllNotes Never) app_service demo_world)"
  let ?r = "saveNote ?s demo_world demo_note None None"
  have r: "reachable ?s"
    unfolding app_service_def by (rule reachable.step [OF reachable.initial])
  have ok: "fst ?r = Inr ()" by code_simp
  then have eq: "?r = (Inr (), fst (snd ?r), snd (snd ?r))"
    by (simp add: prod_eq_iff)
  have pre: "notesCache ?s \<noteq> []" by code_simp
  have late: "300000 \<le> now demo_world" by (simp add: demo_world_def)
  from mutation_clears_cache [OF r disjI1 [OF eq], of demo_world "[]" None Never "[]"] pre late
  show ?thesis by blast
qed

text \<open>
  Claim C2, on the browser backend. \<open>saveNote\<close> stores the note in the array under its
  \<open>filename\<close>, and the stored entry has no \<open>id\<close>; \<open>getNote\<close> looks for an entry whose
  \<open>id\<close> is the file name. Writing the note \<open>a\<close> into the empty store succeeds and
  stores its content, and reading \<open>a\<close> right after returns \<open>null\<close>.
\<close>

theorem web_write_then_read_returns_null:
  "saveNote web_service empty_world demo_note None None = (Inr (), web_service, web_world)
   \<and> map web_content (stored_notes web_world) = [content demo_note]
   \<and> fst (getNote web_service web_world (filename demo_note) None) = None"
  by code_simp

text \<open>
  In the browser \<open>saveNote\<close> does not use \<open>oldFilename\<close> (nor \<open>folderPath\<close>): whatever
  is passed, the call is \<open>saveWebNote(note)\<close>.
\<close>

lemma saveNote_web_ignores_oldFilename:
  "platform_OS s = Web \<Longrightarrow>
   saveNote s w note0 oldFilename folderPath = (Inr (), s, saveWebNote w note0)"
  by (simp add: saveNote_def)

text \<open>
  Claim C4 as stated fails. On a device that holds \<open>a.md\<close> and rejects deleting it,
  renaming \<open>a\<close> to \<open>b\<close> succeeds and leaves both \<open>a.md\<close> and \<open>b.md\<close>. In the browser,
  where \<open>saveNote\<close> does not look at \<open>oldFilename\<close>, the rename leaves both entries
  as well.
\<close>

theorem rename_leaves_old_entry:
  "fst (saveNote app_service stuck_world renamed_note (Some ''a'') None) = Inr ()
   \<and> lookup (snd (snd (saveNote app_service stuck_world renamed_note (Some ''a'') None)))
        (note_locator app_service None ''a'') = Some (File ''hello'' 1700000000000)
   \<and> lookup (snd (snd (saveNote app_service stuck_world renamed_note (Some ''a'') None)))
        (note_locator app_service None ''b'') = Some (File ''hello'' 1700000000000)
   \<and> fst (saveNote web_service web_world renamed_note (Some ''a'') None) = Inr ()
   \<and> map web_filename
        (stored_notes (snd (snd (saveNote web_service web_world renamed_note (Some ''a'') None))))
       = [''a'', ''b'']"
  by code_simp

text \<open>
  Claim C4, amended: on the app-folder and SAF backends, after a rename that succeeds,
  the entry under the new file name holds the content of the note; the entry under the
  old file name is gone when deleting it succeeded, and is as it was before when
  deleting it failed.
\<close>

theorem rename_on_native_backends:
  assumes "platform_OS s \<noteq> Web"
    and "truthy oldFilename" and "the oldFilename \<noteq> filename note0"
    and "saveNote s w note0 oldFilename folderPath = (Inr (), s', w')"
  shows "lookup w' (note_locator s folderPath (filename note0))
           = Some (File (content note0) (now w))
       \<and> (\<exists>w1. ensureDirectoryExists s w = Inr w1
            \<and> (case fst (deleteNote s w1 (the oldFilename) folderPath) of
                 Inr u \<Rightarrow> lookup w' (note_locator s folderPath (the oldFilename)) = None
               | Inl e \<Rightarrow> lookup w' (note_locator s folderPath (the oldFilename))
                           = lookup w1 (note_locator s folderPath (the oldFilename))))"
proof -
  let ?new = "note_locator s folderPath (filename note0)"
  let ?old = "note_locator s folderPath (the oldFilename)"
  have ne: "norm_path ?old \<noteq> norm_path ?new"
    using assms(3) by (simp add: norm_path_locator locator_inj)
  from assms(1,4) obtain w1 where e: "ensureDirectoryExists s w = Inr w1"
    by (cases "ensureDirectoryExists s w") (auto simp: saveNote_native)
  have n1: "now w1 = now w" using e by (rule ensureDirectoryExists_now)
  show ?thesis
  proof (cases "delete_primitive s folderPath w1 ?old")
    case (Inl err)
    then have failed: "deleteNote s w1 (the oldFilename) folderPath = (Inl err, s, w1)"
      using deleteNote_native [OF assms(1), of w1 "the oldFilename" folderPath] by simp
    with assms e have wr: "write_primitive s folderPath w1 ?new (content note0) = Inr w'"
      by (auto simp: saveNote_native Let_def split: sum.splits)
    from lookup_after_write [OF wr] ne n1 failed e show ?thesis by simp
  next
    case (Inr wd)
    then have deleted: "deleteNote s w1 (the oldFilename) folderPath = (Inr (), clearCache s, wd)"
      using deleteNote_native [OF assms(1), of w1 "the oldFilename" folderPath] by simp
    with assms e have wr: "write_primitive s folderPath wd ?new (content note0) = Inr w'"
      by (auto simp: saveNote_native Let_def split: sum.splits)
    from delete_result [OF Inr] have "lookup wd ?old = None" "now wd = now w1"
      by simp_all
    with lookup_after_write [OF wr] ne n1 deleted e show ?thesis by simp
  qed
qed

theorem rename_on_native_backends_witness:
  "lookup (snd (snd (saveNote app_service saved_world renamed_note (Some ''a'') None)))
        (note_locator app_service None (filename renamed_note))
     = Some (File (content renamed_note) (now saved_world))
   \<and> lookup (snd (snd (saveNote app_service saved_world renamed_note (Some ''a'') None)))
        (note_locator app_service None ''a'') = None"
proof -
  let ?r = "saveNote app_service saved_world renamed_note (Some ''a'') None"
  have p: "platform_OS app_service \<noteq> Web" by (simp add: app_service_def new_service_def)
  have t: "truthy (Some ''a'')" by (simp add: truthy_def)
  have d: "the (Some ''a'') \<noteq> filename renamed_note"
    by (simp add: renamed_note_def demo_note_def)
  have ok: "fst ?r = Inr ()" by code_simp
  then have eq: "?r = (Inr (), fst (snd ?r), snd (snd ?r))"
    by (simp add: prod_eq_iff)
  have gone: "lookup (snd (snd ?r)) (note_locator app_service None ''a'') = None"
    by code_simp
  from rename_on_native_backends [OF p t d eq] gone show ?thesis by blast
qed

text \<open>
  Claim C6 as stated fails in the browser: deleting a note that is not in the store
  resolves, whether the store holds other notes or nothing.
\<close>

theorem web_delete_of_missing_note_resolves:
  "find (\<lambda>n. web_filename n = ''zz'' \<or> web_id n = Some ''zz'') (stored_notes web_world) = None
   \<and> fst (deleteNote web_service web_world ''zz'' None) = Inr ()
   \<and> stored_notes empty_world = []
   \<and> fst (deleteNote web_service empty_world ''zz'' None) = Inr ()"
  by code_simp

text \<open>
  Claim C6, amended. On the app-folder and SAF backends: \<open>deleteNote\<close> rejects with the
  error of the delete primitive, and so it rejects when nothing is at the locator;
  \<open>saveNote\<close> rejects with the error of \<open>ensureDirectoryExists\<close> or of the write
  primitive; \<open>getNote\<close>, when it does not answer from the cache, returns \<open>null\<close> for
  every failure of its reads, a missing file included. In the browser \<open>deleteNote\<close>
  always resolves.
\<close>

theorem note_failures_reach_the_caller:
  "(platform_OS s \<noteq> Web \<and> delete_primitive s fp w (note_locator s fp ident) = Inl e \<longrightarrow>
      deleteNote s w ident fp = (Inl e, s, w))
   \<and> (platform_OS s \<noteq> Web \<and> lookup w (note_locator s fp ident) = None \<longrightarrow>
      (\<exists>e'. fst (deleteNote s w ident fp) = Inl e'))
   \<and> (platform_OS s \<noteq> Web \<and> ensureDirectoryExists s w = Inl e \<longrightarrow>
      fst (saveNote s w note0 oldFilename fp) = Inl e)
   \<and> (platform_OS s \<noteq> Web \<and> ensureDirectoryExists s w = Inr w1
       \<and> write_primitive s fp
            (if truthy oldFilename \<and> the oldFilename \<noteq> filename note0
             then snd (snd (deleteNote s w1 (the oldFilename) fp)) else w1)
            (note_locator s fp (filename note0)) (content note0) = Inl e \<longrightarrow>
      fst (saveNote s w note0 oldFilename fp) = Inl e)
   \<and> (platform_OS s \<noteq> Web
       \<and> \<not> (isCacheValid s w
            \<and> map_of (noteContentCache s) (''note_'' @ f @ ''_'' @ opt_or fp ''root'') \<noteq> None)
       \<and> (getNote_try s w f fp = Inl e \<or> lookup w (note_locator s fp f) = None) \<longrightarrow>
      fst (getNote s w f fp) = None)
   \<and> (platform_OS s = Web \<longrightarrow> fst (deleteNote s w ident fp) = Inr ())"
proof (intro conjI impI)
  assume a: "platform_OS s \<noteq> Web \<and> delete_primitive s fp w (note_locator s fp ident) = Inl e"
  then show "deleteNote s w ident fp = (Inl e, s, w)"
    by (simp add: deleteNote_native)
next
  assume a: "platform_OS s \<noteq> Web \<and> lookup w (note_locator s fp ident) = None"
  then obtain e' where "delete_primitive s fp w (note_locator s fp ident) = Inl e'"
    using delete_missing [of w "note_locator s fp ident" s fp] by blast
  with a have "fst (deleteNote s w ident fp) = Inl e'"
    by (simp add: deleteNote_native)
  then show "\<exists>e'. fst (deleteNote s w ident fp) = Inl e'" ..
next
  assume "platform_OS s \<noteq> Web \<and> ensureDirectoryExists s w = Inl e"
  then show "fst (saveNote s w note0 oldFilename fp) = Inl e"
    by (simp add: saveNote_native)
next
  assume "platform_OS s \<noteq> Web \<and> ensureDirectoryExists s w = Inr w1
       \<and> write_primitive s fp
            (if truthy oldFilename \<and> the oldFilename \<noteq> filename note0
             then snd (snd (deleteNote s w1 (the oldFilename) fp)) else w1)
            (note_locator s fp (filename note0)) (content note0) = Inl e"
  then show "fst (saveNote s w note0 oldFilename fp) = Inl e"
    by (cases "truthy oldFilename \<and> the oldFilename \<noteq> filename note0")
      (auto simp: saveNote_native Let_def)
next
  assume a: "platform_OS s \<noteq> Web
       \<and> \<not> (isCacheValid s w
            \<and> map_of (noteContentCache s) (''note_'' @ f @ ''_'' @ opt_or fp ''root'') \<noteq> None)
       \<and> (getNote_try s w f fp = Inl e \<or> lookup w (note_locator s fp f) = None)"
  then obtain e' where "getNote_try s w f fp = Inl e'"
    using getNote_try_missing [of w s fp f] by blast
  with a show "fst (getNote s w f fp) = None"
    by (auto simp: getNote_def Let_def)
next
  assume "platform_OS s = Web"
  then show "fst (deleteNote s w ident fp) = Inr ()"
    by (simp add: deleteNote_def)
qed

theorem note_failures_reach_the_caller_witness:
  "deleteNote app_service empty_world ''zz'' None
     = (Inl (NotFound ''file:///data/Notes/zz.md''), app_service, empty_world)
   \<and> fst (getNote app_service empty_world ''zz'' None) = None
   \<and> fst (deleteNote web_service empty_world ''zz'' None) = Inr ()
   \<and> fst (saveNote app_service (empty_world\<lparr>faults := [(Write, ''file:///data/Notes/a.md'')]\<rparr>)
          demo_note None None) = Inl (BackendFailure Write ''file:///data/Notes/a.md'')"
proof -
  note T = note_failures_reach_the_caller
  have p: "platform_OS app_service \<noteq> Web" by (simp add: app_service_def new_service_def)
  have pw: "platform_OS web_service = Web" by (simp add: web_service_def new_service_def)
  have loc: "note_locator app_service None ''zz'' = ''file:///data/Notes/zz.md''" by code_simp
  have dp: "delete_primitive app_service None empty_world (note_locator app_service None ''zz'')
       = Inl (NotFound ''file:///data/Notes/zz.md'')" by code_simp
  have miss: "lookup empty_world (note_locator app_service None ''zz'') = None" by code_simp
  have nc: "\<not> (isCacheValid app_service empty_world
            \<and> map_of (noteContentCache app_service) (''note_'' @ ''zz'' @ ''_'' @ opt_or None ''root'') \<noteq> None)"
    by (simp add: app_service_def new_service_def)
  let ?w = "empty_world\<lparr>faults := [(Write, ''file:///data/Notes/a.md'')]\<rparr>"
  have ed: "ensureDirectoryExists app_service ?w
      = Inr (?w\<lparr>entries := [(''file:///data/Notes'', Dir 1700000000000)]\<rparr>)" by code_simp
  have wf: "write_primitive app_service None
            (if truthy None \<and> the None \<noteq> filename demo_note
             then snd (snd (deleteNote app_service (?w\<lparr>entries := [(''file:///data/Notes'', Dir 1700000000000)]\<rparr>) (the None) None))
             else (?w\<lparr>entries := [(''file:///data/Notes'', Dir 1700000000000)]\<rparr>))
            (note_locator app_service None (filename demo_note)) (content demo_note)
        = Inl (BackendFailure Write ''file:///data/Notes/a.md'')"
    by code_simp
  have 1: "deleteNote app_service empty_world ''zz'' None
     = (Inl (NotFound ''file:///data/Notes/zz.md''), app_service, empty_world)"
    using T [of app_service None empty_world "''zz''" "NotFound ''file:///data/Notes/zz.md''"
             demo_note None "empty_world" "''zz''"] p dp by blast
  have 2: "fst (getNote app_service empty_world ''zz'' None) = None"
    using T [of app_service None empty_world "''zz''" "NotFound ''file:///data/Notes/zz.md''"
             demo_note None "empty_world" "''zz''"] p nc miss by blast
  have 3: "fst (deleteNote web_service empty_world ''zz'' None) = Inr ()"
    using T [of web_service None empty_world "''zz''" "NotFound ''file:///data/Notes/zz.md''"
             demo_note None "empty_world" "''zz''"] pw by blast
  have 4: "fst (saveNote app_service ?w demo_note None None)
      = Inl (BackendFailure Write ''file:///data/Notes/a.md'')"
    using T [of app_service None ?w "''zz''" "BackendFailure Write ''file:///data/Notes/a.md''"
             demo_note None "?w\<lparr>entries := [(''file:///data/Notes'', Dir 1700000000000)]\<rparr>" "''zz''"]
          p ed wf by blast
  from 1 2 3 4 show ?thesis by blast
qed

end
